theory Spec2Isabelle
  imports Complex_Main "HOL-Library.Sublist"
begin

text \<open>
  A model of the services of StockPocket, a React Native chat client for financial
  questions: the file validation of the file service, the data gateway
  (externalDataService, fmpService, newsService), the conversation orchestrator
  (geminiService) and the two session stores (firestoreService and the local
  storageService). Each function of the source is a function of the same name here.
  What a function does to the outside world is explicit: the AI backend, the network
  and the stores are arguments, the requests made are part of the result, and an
  exception is the \<open>Inl\<close> of a sum.
\<close>

section \<open>Shared types (app/types/index.ts)\<close>

text \<open>
  \<^verbatim>\<open>FileAttachment\<close>: the \<^verbatim>\<open>type\<close> field is the union
  \<^verbatim>\<open>'pdf' | 'excel' | 'csv' | 'txt'\<close>; \<^verbatim>\<open>size\<close> is a byte count.
\<close>

datatype file_type = Pdf | Excel | Csv | Txt

record file_attachment =
  fa_id :: string
  fa_name :: string
  fa_type :: file_type
  fa_size :: int
  fa_uri :: string
  fa_content :: string
  fa_mimeType :: string

text \<open>\<^verbatim>\<open>Attachment\<close>: the form sent to the AI backend.\<close>

record attachment =
  att_name :: string
  att_mimeType :: string
  att_data :: string

record grounding_source =
  gs_uri :: string
  gs_title :: string

text \<open>
  \<^verbatim>\<open>GroundingChunk\<close>: \<^verbatim>\<open>web\<close> is optional; the code reads
  \<^verbatim>\<open>chunk.web.title || ...\<close>, so a title may be missing at run time.
\<close>

record web_ref =
  web_uri :: string
  web_title :: "string option"

record grounding_chunk =
  gc_web :: "web_ref option"

datatype role = User | Assistant

text \<open>
  \<^verbatim>\<open>Message\<close>: an optional field is an \<open>option\<close>, \<open>None\<close> standing for
  \<^verbatim>\<open>undefined\<close>.
\<close>

record message =
  msg_id :: string
  msg_content :: string
  msg_role :: role
  msg_timestamp :: int
  msg_attachments :: "file_attachment list option"
  msg_sources :: "grounding_source list option"
  msg_isPlaceholder :: "bool option"

record chat_session =
  cs_id :: string
  cs_title :: string
  cs_messages :: "message list"
  cs_createdAt :: int
  cs_updatedAt :: int
  cs_attachments :: "file_attachment list"

section \<open>JavaScript values and exceptions\<close>

text \<open>
  The values JSON decoding produces and the objects handed to the document store.
  An object is the list of its own properties in insertion order; its keys are
  distinct.
\<close>

datatype jsval =
    JUndefined
  | JNull
  | JBool bool
  | JNum real
  | JStr string
  | JArr "jsval list"
  | JObj "(string \<times> jsval) list"

fun truthy :: "jsval \<Rightarrow> bool" where
  "truthy JUndefined = False"
| "truthy JNull = False"
| "truthy (JBool b) = b"
| "truthy (JNum n) = (n \<noteq> 0)"
| "truthy (JStr s) = (s \<noteq> [])"
| "truthy (JArr xs) = True"
| "truthy (JObj kvs) = True"

text \<open>\<^verbatim>\<open>a || b\<close>\<close>

definition js_or :: "jsval \<Rightarrow> jsval \<Rightarrow> jsval" where
  "js_or a b = (if truthy a then a else b)"

text \<open>
  A thrown value is any value: \<^verbatim>\<open>catch (error: any)\<close>. An \<^verbatim>\<open>Error\<close> object
  is the object holding its \<^verbatim>\<open>message\<close>, the one property of it this program
  reads.
\<close>

type_synonym js_error = jsval

text \<open>\<^verbatim>\<open>new Error(msg)\<close>\<close>

definition newError :: "string \<Rightarrow> js_error" where
  "newError msg = JObj [(''message'', JStr msg)]"

text \<open>
  \<^verbatim>\<open>TypeError\<close> of a property read on \<^verbatim>\<open>undefined\<close> or \<^verbatim>\<open>null\<close>
  (the wording of the message is the engine's; this is Hermes's).
\<close>

definition typeErrorOf :: "string \<Rightarrow> string \<Rightarrow> js_error" where
  "typeErrorOf base prop =
     newError (''Cannot read property '' @ [CHR 0x27] @ prop @ [CHR 0x27] @ '' of '' @ base)"

abbreviation typeError :: "string \<Rightarrow> js_error" where
  "typeError prop \<equiv> typeErrorOf ''undefined'' prop"

text \<open>\<^verbatim>\<open>TypeError\<close> of a call of a value that is no function.\<close>

definition notAFunction :: "string \<Rightarrow> js_error" where
  "notAFunction prop = newError (prop @ '' is not a function'')"

text \<open>
  \<^verbatim>\<open>v.key\<close> for a data property \<^verbatim>\<open>key\<close>: a \<^verbatim>\<open>TypeError\<close> on
  \<^verbatim>\<open>undefined\<close> and \<^verbatim>\<open>null\<close>, the property's value on an object that has
  it, \<^verbatim>\<open>undefined\<close> otherwise.
\<close>

fun js_prop :: "jsval \<Rightarrow> string \<Rightarrow> js_error + jsval" where
  "js_prop JUndefined key = Inl (typeError key)"
| "js_prop JNull key = Inl (typeErrorOf ''null'' key)"
| "js_prop (JObj kvs) key = (case map_of kvs key of None \<Rightarrow> Inr JUndefined | Some v \<Rightarrow> Inr v)"
| "js_prop v key = Inr JUndefined"

text \<open>\<^verbatim>\<open>v?.key\<close>\<close>

fun js_opt_prop :: "jsval \<Rightarrow> string \<Rightarrow> jsval" where
  "js_opt_prop (JObj kvs) key = (case map_of kvs key of None \<Rightarrow> JUndefined | Some v \<Rightarrow> v)"
| "js_opt_prop v key = JUndefined"

text \<open>
  \<^verbatim>\<open>v.key\<close> where \<^verbatim>\<open>v\<close> is known to be neither \<^verbatim>\<open>undefined\<close> nor
  \<^verbatim>\<open>null\<close> (an earlier read of a property of \<^verbatim>\<open>v\<close> succeeded, or \<^verbatim>\<open>v\<close>
  was tested): no exception.
\<close>

definition js_get :: "jsval \<Rightarrow> string \<Rightarrow> jsval" where
  "js_get v key = js_opt_prop v key"

text \<open>Sequencing of steps that may throw.\<close>

definition bindE :: "'e + 'a \<Rightarrow> ('a \<Rightarrow> 'e + 'b) \<Rightarrow> 'e + 'b" where
  "bindE x f = (case x of Inl e \<Rightarrow> Inl e | Inr v \<Rightarrow> f v)"

text \<open>\<^verbatim>\<open>xs.map(f)\<close> where \<^verbatim>\<open>f\<close> may throw: the first exception ends the map.\<close>

fun mapE :: "('a \<Rightarrow> 'e + 'b) \<Rightarrow> 'a list \<Rightarrow> 'e + 'b list" where
  "mapE f [] = Inr []"
| "mapE f (x # xs) =
     (case f x of Inl e \<Rightarrow> Inl e
      | Inr y \<Rightarrow> (case mapE f xs of Inl e \<Rightarrow> Inl e | Inr ys \<Rightarrow> Inr (y # ys)))"

text \<open>\<^verbatim>\<open>s.includes(sub)\<close>: \<^verbatim>\<open>sub\<close> occurs in \<^verbatim>\<open>s\<close> as a contiguous block.\<close>

fun str_includes :: "string \<Rightarrow> string \<Rightarrow> bool" where
  "str_includes [] sub = (sub = [])"
| "str_includes (c # cs) sub = (prefix sub (c # cs) \<or> str_includes cs sub)"

text \<open>Decimal numerals, for numbers inside template strings.\<close>

definition digit :: "nat \<Rightarrow> char" where
  "digit n = ''0123456789'' ! n"

function decimal :: "nat \<Rightarrow> string" where
  "decimal n = (if n < 10 then [digit n] else decimal (n div 10) @ [digit (n mod 10)])"
  by pat_completeness auto
termination
  by (relation "measure id") auto

declare decimal.simps [simp del]

definition decimalInt :: "int \<Rightarrow> string" where
  "decimalInt i = (if i < 0 then ''-'' @ decimal (nat (- i)) else decimal (nat i))"

section \<open>The environment\<close>

text \<open>
  The generative-AI SDK surface the orchestrator uses. Every field the code guards
  with \<^verbatim>\<open>?.\<close>, \<^verbatim>\<open>&&\<close> or \<^verbatim>\<open>||\<close> is optional, and so are the fields of a
  function call. The arguments of a function call are the string parameters the two
  tool declarations name.
\<close>

record function_call =
  fc_id :: "string option"
  fc_name :: "string option"
  fc_args :: "(string \<times> string) list option"

record function_response =
  fr_name :: "string option"
  fr_response :: jsval
  fr_id :: "string option"

record inline_data =
  id_mimeType :: string
  id_data :: string

record part =
  p_text :: "string option"
  p_inlineData :: "inline_data option"
  p_functionCall :: "function_call option"
  p_functionResponse :: "function_response option"

datatype gemini_role = RoleUser | RoleModel

text \<open>\<^verbatim>\<open>ChatHistoryItem\<close>\<close>

record chat_history_item =
  chi_role :: gemini_role
  chi_parts :: "part list"

text \<open>
  \<^verbatim>\<open>FunctionDeclaration\<close>: the name, the description, the parameters (name and
  description of each; all are strings) and the required parameters.
\<close>

record function_declaration =
  fd_name :: string
  fd_description :: string
  fd_properties :: "(string \<times> string) list"
  fd_required :: "string list"

record request_config =
  rc_systemInstruction :: string
  rc_temperature :: "real option"
  rc_tools :: "function_declaration list list"

record request =
  rq_model :: string
  rq_contents :: "chat_history_item list"
  rq_config :: request_config

record grounding_metadata =
  gm_groundingChunks :: "grounding_chunk list option"

record response_content =
  rsc_parts :: "part list option"

record candidate =
  cand_content :: "response_content option"
  cand_groundingMetadata :: "grounding_metadata option"

text \<open>
  \<^verbatim>\<open>GenerateContentResponse\<close>; \<^verbatim>\<open>text\<close> is the SDK's accessor, a string or
  \<^verbatim>\<open>undefined\<close>.
\<close>

record response =
  rs_text :: "string option"
  rs_candidates :: "candidate list option"

text \<open>\<^verbatim>\<open>fetch\<close>'s response: \<^verbatim>\<open>ok\<close> and the outcome of \<^verbatim>\<open>json()\<close>.\<close>

record http_response =
  hr_ok :: bool
  hr_json :: "js_error + jsval"

text \<open>
  What the services do to the outside world, in order: the requests sent to the AI
  backend and the URLs fetched.
\<close>

record io =
  calls :: "request list"
  fetched :: "string list"

text \<open>
  The build-time configuration: \<^verbatim>\<open>Constants.expoConfig?.extra?.X\<close> and
  \<^verbatim>\<open>process.env.EXPO_PUBLIC_X\<close>, each a string or missing.
\<close>

record config =
  extra_GEMINI_API_KEY :: "string option"
  extra_FMP_API_KEY :: "string option"
  extra_NEWS_API_KEY :: "string option"
  EXPO_PUBLIC_GEMINI_API_KEY :: "string option"
  EXPO_PUBLIC_FMP_API_KEY :: "string option"
  EXPO_PUBLIC_NEWS_API_KEY :: "string option"

text \<open>\<^verbatim>\<open>a || b\<close> for an optional string \<^verbatim>\<open>a\<close>.\<close>

definition str_or :: "string option \<Rightarrow> string \<Rightarrow> string" where
  "str_or a b = (case a of None \<Rightarrow> b | Some s \<Rightarrow> if s \<noteq> [] then s else b)"

text \<open>
  The configuration and the external collaborators. A collaborator's reply may depend
  on everything it was asked before: \<open>generateContent\<close> and \<open>fetch\<close> take the earlier
  requests. \<open>hostname\<close> is \<^verbatim>\<open>new URL(uri).hostname\<close>, which throws on a string that
  is no URL; \<open>encodeURIComponent\<close> throws on a malformed string; \<open>urlSearchParams\<close> is
  \<^verbatim>\<open>new URLSearchParams(obj).toString()\<close>; \<open>now\<close> is \<^verbatim>\<open>Date.now()\<close> and
  \<open>nowISO\<close> is \<^verbatim>\<open>new Date().toISOString()\<close> during the operation; \<open>parseInt\<close>
  is the global function (its \<^verbatim>\<open>NaN\<close>, which is falsy, is \<open>JUndefined\<close> here).
  \<open>SYSTEM_INSTRUCTION\<close> is the fixed prompt text of geminiService.ts.
\<close>

record env =
  cfg :: config
  SYSTEM_INSTRUCTION :: string
  generateContent :: "request list \<Rightarrow> request \<Rightarrow> js_error + response"
  fetch :: "string list \<Rightarrow> string \<Rightarrow> js_error + http_response"
  encodeURIComponent :: "string \<Rightarrow> js_error + string"
  urlSearchParams :: "(string \<times> string) list \<Rightarrow> string"
  hostname :: "string \<Rightarrow> js_error + string"
  parseInt :: "jsval \<Rightarrow> jsval"
  now :: int
  nowISO :: string

definition doFetch :: "env \<Rightarrow> io \<Rightarrow> string \<Rightarrow> (js_error + http_response) \<times> io" where
  "doFetch e s url = (fetch e (fetched s) url, s\<lparr>fetched := fetched s @ [url]\<rparr>)"

definition doGenerateContent :: "env \<Rightarrow> io \<Rightarrow> request \<Rightarrow> (js_error + response) \<times> io" where
  "doGenerateContent e s rq = (generateContent e (calls s) rq, s\<lparr>calls := calls s @ [rq]\<rparr>)"

section \<open>File service: validateFile\<close>

text \<open>The result object \<^verbatim>\<open>{ valid: boolean; error?: string }\<close>.\<close>

record validation =
  valid :: bool
  error :: "string option"

definition maxSize :: "file_type \<Rightarrow> int" where
  "maxSize t = (if t = Pdf then 10 * 1024 * 1024 else 5 * 1024 * 1024)"

definition tooLargeError :: "file_type \<Rightarrow> string" where
  "tooLargeError t = ''File terlalu besar. Maksimal '' @ (if t = Pdf then ''10MB'' else ''5MB'')"

definition emptyError :: string where
  "emptyError = ''File kosong atau tidak dapat dibaca''"

definition validateFile :: "file_attachment \<Rightarrow> validation" where
  "validateFile file =
     (if fa_size file > maxSize (fa_type file)
      then \<lparr>valid = False, error = Some (tooLargeError (fa_type file))\<rparr>
      else if fa_content file = [] \<or> length (fa_content file) = 0
      then \<lparr>valid = False, error = Some emptyError\<rparr>
      else \<lparr>valid = True, error = None\<rparr>)"

section \<open>External data service (app/services/externalDataService.ts)\<close>

definition FMP_API_KEY :: "env \<Rightarrow> string" where
  "FMP_API_KEY e =
     str_or (extra_FMP_API_KEY (cfg e)) (str_or (EXPO_PUBLIC_FMP_API_KEY (cfg e)) ''demo'')"

definition NEWS_API_KEY :: "env \<Rightarrow> string" where
  "NEWS_API_KEY e =
     str_or (extra_NEWS_API_KEY (cfg e)) (str_or (EXPO_PUBLIC_NEWS_API_KEY (cfg e)) ''demo'')"

definition FMP_BASE_URL :: string where
  "FMP_BASE_URL = ''https://financialmodelingprep.com/stable''"

definition checkApiKey :: "env \<Rightarrow> bool" where
  "checkApiKey e = (FMP_API_KEY e \<noteq> [] \<and> FMP_API_KEY e \<noteq> ''demo'')"

text \<open>fetchStockNews: disabled, no request is made.\<close>

definition fetchStockNews :: "env \<Rightarrow> io \<Rightarrow> string option \<Rightarrow> jsval list \<times> io" where
  "fetchStockNews e s ticker = ([], s)"

text \<open>The body of the \<^verbatim>\<open>map\<close> callback of fetchMacroNewsFromNewsAPI.\<close>

definition macroNewsItem :: "jsval \<Rightarrow> js_error + jsval" where
  "macroNewsItem item =
     bindE (js_prop item ''title'') (\<lambda>title.
       Inr (JObj [(''title'', js_or title (JStr [])),
                  (''publishedDate'', js_or (js_get item ''publishedAt'') (JStr [])),
                  (''source'', js_or (js_opt_prop (js_get item ''source'') ''name'') (JStr [])),
                  (''summary'', js_or (js_get item ''description'') (JStr [])),
                  (''url'', js_or (js_get item ''url'') (JStr []))]))"

text \<open>What follows \<^verbatim>\<open>await response.json()\<close> inside the \<^verbatim>\<open>try\<close>.\<close>

definition macroNewsOfData :: "jsval \<Rightarrow> js_error + jsval list" where
  "macroNewsOfData data =
     bindE (js_prop data ''status'') (\<lambda>status.
       if status \<noteq> JStr ''ok'' then Inr []
       else (case js_get data ''articles'' of
           JArr items \<Rightarrow> mapE macroNewsItem items
         | JUndefined \<Rightarrow> Inl (typeError ''map'')
         | JNull \<Rightarrow> Inl (typeError ''map'')
         | _ \<Rightarrow> Inl (notAFunction ''data.articles.map'')))"

definition fetchMacroNewsFromNewsAPI :: "env \<Rightarrow> io \<Rightarrow> string \<Rightarrow> jsval list \<times> io" where
  "fetchMacroNewsFromNewsAPI e s query =
     (if NEWS_API_KEY e = [] \<or> NEWS_API_KEY e = ''demo'' then ([], s)
      else case encodeURIComponent e query of
        Inl err \<Rightarrow> ([], s)
      | Inr q \<Rightarrow>
          (case doFetch e s
              (''https://newsapi.org/v2/everything?q='' @ q
                @ ''&language=id&sortBy=publishedAt&pageSize=5&apiKey='' @ NEWS_API_KEY e) of
             (Inl err, s') \<Rightarrow> ([], s')
           | (Inr response, s') \<Rightarrow>
               (case bindE (hr_json response) macroNewsOfData of
                  Inl err \<Rightarrow> ([], s')
                | Inr items \<Rightarrow> (items, s'))))"

text \<open>fetchMacroNews: the parameter defaults to \<^verbatim>\<open>"economy"\<close> when it is undefined.\<close>

definition fetchMacroNews :: "env \<Rightarrow> io \<Rightarrow> string option \<Rightarrow> jsval list \<times> io" where
  "fetchMacroNews e s query =
     fetchMacroNewsFromNewsAPI e s (case query of None \<Rightarrow> ''economy'' | Some q \<Rightarrow> q)"

text \<open>
  The part every FMP function of this module repeats after its key check:
  \<^verbatim>\<open>fetch\<close>, \<^verbatim>\<open>if (!response.ok) return emptyResult\<close>, \<^verbatim>\<open>await response.json()\<close>,
  the function's own treatment \<open>k\<close> of the data, and \<^verbatim>\<open>catch { return emptyResult }\<close>.
\<close>

definition fetchOk ::
  "env \<Rightarrow> io \<Rightarrow> string \<Rightarrow> jsval \<Rightarrow> (jsval \<Rightarrow> js_error + jsval) \<Rightarrow> jsval \<times> io" where
  "fetchOk e s url emptyResult k =
     (case doFetch e s url of
        (Inl err, s') \<Rightarrow> (emptyResult, s')
      | (Inr response, s') \<Rightarrow>
          if \<not> hr_ok response then (emptyResult, s')
          else (case bindE (hr_json response) k of
                  Inl err \<Rightarrow> (emptyResult, s')
                | Inr v \<Rightarrow> (v, s')))"

text \<open>\<^verbatim>\<open>Array.isArray(data) ? data[0] : data\<close>\<close>

definition firstOrSelf :: "jsval \<Rightarrow> jsval" where
  "firstOrSelf data =
     (case data of JArr [] \<Rightarrow> JUndefined | JArr (x # xs) \<Rightarrow> x | _ \<Rightarrow> data)"

text \<open>\<^verbatim>\<open>xs.slice(0, end)\<close>\<close>

definition slice0 :: "int \<Rightarrow> 'a list \<Rightarrow> 'a list" where
  "slice0 end xs = (if end < 0 then take (nat (int (length xs) + end)) xs else take (nat end) xs)"

definition quoteOfData :: "string \<Rightarrow> jsval \<Rightarrow> js_error + jsval" where
  "quoteOfData ticker data =
     (let quote = firstOrSelf data in
      if \<not> truthy quote then Inr JNull
      else Inr (JObj
        [(''symbol'', js_or (js_get quote ''symbol'') (JStr ticker)),
         (''name'', js_or (js_get quote ''name'') (js_or (js_get quote ''companyName'') (JStr []))),
         (''price'', js_or (js_get quote ''price'') (JNum 0)),
         (''change'', js_or (js_get quote ''change'') (JNum 0)),
         (''changesPercentage'', js_or (js_get quote ''changesPercentage'') (JNum 0)),
         (''dayLow'', js_or (js_get quote ''dayLow'') (JNum 0)),
         (''dayHigh'', js_or (js_get quote ''dayHigh'') (JNum 0)),
         (''yearLow'', js_or (js_get quote ''yearLow'') (JNum 0)),
         (''yearHigh'', js_or (js_get quote ''yearHigh'') (JNum 0)),
         (''marketCap'', js_or (js_get quote ''marketCap'') (JNum 0)),
         (''volume'', js_or (js_get quote ''volume'') (JNum 0)),
         (''avgVolume'', js_or (js_get quote ''avgVolume'') (JNum 0)),
         (''open'', js_or (js_get quote ''open'') (JNum 0)),
         (''previousClose'', js_or (js_get quote ''previousClose'') (JNum 0)),
         (''pe'', js_or (js_get quote ''pe'') (JNum 0)),
         (''eps'', js_or (js_get quote ''eps'') (JNum 0)),
         (''earningsAnnouncement'', js_or (js_get quote ''earningsAnnouncement'') (JStr []))]))"

definition fetchStockQuote :: "env \<Rightarrow> io \<Rightarrow> string \<Rightarrow> jsval \<times> io" where
  "fetchStockQuote e s ticker =
     (if \<not> checkApiKey e then (JNull, s)
      else fetchOk e s
             (FMP_BASE_URL @ ''/quote?symbol='' @ ticker @ ''&apikey='' @ FMP_API_KEY e)
             JNull (quoteOfData ticker))"

definition profileOfData :: "env \<Rightarrow> string \<Rightarrow> jsval \<Rightarrow> js_error + jsval" where
  "profileOfData e ticker data =
     (let profile = firstOrSelf data in
      if \<not> truthy profile then Inr JNull
      else Inr (JObj
        [(''symbol'', js_or (js_get profile ''symbol'') (JStr ticker)),
         (''companyName'',
            js_or (js_get profile ''companyName'') (js_or (js_get profile ''name'') (JStr []))),
         (''currency'', js_or (js_get profile ''currency'') (JStr ''USD'')),
         (''exchange'',
            js_or (js_get profile ''exchangeShortName'') (js_or (js_get profile ''exchange'') (JStr []))),
         (''industry'', js_or (js_get profile ''industry'') (JStr [])),
         (''sector'', js_or (js_get profile ''sector'') (JStr [])),
         (''country'', js_or (js_get profile ''country'') (JStr [])),
         (''description'', js_or (js_get profile ''description'') (JStr [])),
         (''ceo'', js_or (js_get profile ''ceo'') (JStr [])),
         (''website'', js_or (js_get profile ''website'') (JStr [])),
         (''employees'', js_or (parseInt e (js_get profile ''fullTimeEmployees'')) (JNum 0)),
         (''marketCap'', js_or (js_get profile ''mktCap'') (js_or (js_get profile ''marketCap'') (JNum 0))),
         (''price'', js_or (js_get profile ''price'') (JNum 0)),
         (''beta'', js_or (js_get profile ''beta'') (JNum 0)),
         (''ipoDate'', js_or (js_get profile ''ipoDate'') (JStr []))]))"

definition fetchCompanyProfile :: "env \<Rightarrow> io \<Rightarrow> string \<Rightarrow> jsval \<times> io" where
  "fetchCompanyProfile e s ticker =
     (if \<not> checkApiKey e then (JNull, s)
      else fetchOk e s
             (FMP_BASE_URL @ ''/profile?symbol='' @ ticker @ ''&apikey='' @ FMP_API_KEY e)
             JNull (profileOfData e ticker))"

datatype period = Annual | Quarter

definition periodString :: "period \<Rightarrow> string" where
  "periodString p = (case p of Annual \<Rightarrow> ''annual'' | Quarter \<Rightarrow> ''quarter'')"

definition incomeItem :: "period \<Rightarrow> jsval \<Rightarrow> js_error + jsval" where
  "incomeItem p item =
     bindE (js_prop item ''date'') (\<lambda>date.
       Inr (JObj [(''date'', js_or date (JStr [])),
                  (''period'', js_or (js_get item ''period'') (JStr (periodString p))),
                  (''revenue'', js_or (js_get item ''revenue'') (JNum 0)),
                  (''netIncome'', js_or (js_get item ''netIncome'') (JNum 0)),
                  (''grossProfit'', js_or (js_get item ''grossProfit'') (JNum 0)),
                  (''operatingIncome'', js_or (js_get item ''operatingIncome'') (JNum 0)),
                  (''eps'', js_or (js_get item ''eps'') (JNum 0))]))"

definition fetchIncomeStatement ::
  "env \<Rightarrow> io \<Rightarrow> string \<Rightarrow> period \<Rightarrow> nat \<Rightarrow> jsval \<times> io" where
  "fetchIncomeStatement e s ticker p limit =
     (if \<not> checkApiKey e then (JArr [], s)
      else fetchOk e s
             (FMP_BASE_URL @ ''/income-statement?symbol='' @ ticker @ ''&period='' @ periodString p
                @ ''&limit='' @ decimal limit @ ''&apikey='' @ FMP_API_KEY e)
             (JArr [])
             (\<lambda>data. case data of
                 JArr items \<Rightarrow> bindE (mapE (incomeItem p) items) (\<lambda>xs. Inr (JArr xs))
               | _ \<Rightarrow> Inr (JArr [])))"

definition metricsOfData :: "env \<Rightarrow> string \<Rightarrow> jsval \<Rightarrow> js_error + jsval" where
  "metricsOfData e ticker data =
     (let metrics = firstOrSelf data in
      if \<not> truthy metrics then Inr JNull
      else Inr (JObj
        [(''symbol'', JStr ticker),
         (''date'', js_or (js_get metrics ''date'') (JStr (nowISO e))),
         (''peRatio'', js_or (js_get metrics ''peRatioTTM'') (JNum 0)),
         (''pbRatio'', js_or (js_get metrics ''pbRatioTTM'') (JNum 0)),
         (''debtToEquity'', js_or (js_get metrics ''debtToEquityTTM'') (JNum 0)),
         (''currentRatio'', js_or (js_get metrics ''currentRatioTTM'') (JNum 0)),
         (''roe'', js_or (js_get metrics ''roeTTM'') (JNum 0)),
         (''roa'', js_or (js_get metrics ''roaTTM'') (JNum 0)),
         (''dividendYield'', js_or (js_get metrics ''dividendYieldTTM'') (JNum 0)),
         (''priceToSalesRatio'', js_or (js_get metrics ''priceToSalesRatioTTM'') (JNum 0)),
         (''enterpriseValue'', js_or (js_get metrics ''enterpriseValueTTM'') (JNum 0))]))"

definition fetchKeyMetrics :: "env \<Rightarrow> io \<Rightarrow> string \<Rightarrow> jsval \<times> io" where
  "fetchKeyMetrics e s ticker =
     (if \<not> checkApiKey e then (JNull, s)
      else fetchOk e s
             (FMP_BASE_URL @ ''/key-metrics-ttm?symbol='' @ ticker @ ''&apikey='' @ FMP_API_KEY e)
             JNull (metricsOfData e ticker))"

definition priceItem :: "jsval \<Rightarrow> js_error + jsval" where
  "priceItem item =
     bindE (js_prop item ''date'') (\<lambda>date.
       Inr (JObj [(''date'', date),
                  (''price'', js_or (js_get item ''close'') (js_get item ''price'')),
                  (''volume'', js_get item ''volume'')]))"

definition fetchHistoricalPrices :: "env \<Rightarrow> io \<Rightarrow> string \<Rightarrow> int \<Rightarrow> jsval \<times> io" where
  "fetchHistoricalPrices e s ticker days =
     (if \<not> checkApiKey e then (JArr [], s)
      else fetchOk e s
             (FMP_BASE_URL @ ''/historical-price-eod/light?symbol='' @ ticker
                @ ''&apikey='' @ FMP_API_KEY e)
             (JArr [])
             (\<lambda>data. case data of
                 JArr items \<Rightarrow> bindE (mapE priceItem (slice0 days items)) (\<lambda>xs. Inr (JArr xs))
               | _ \<Rightarrow> Inr (JArr [])))"

definition searchItem :: "jsval \<Rightarrow> js_error + jsval" where
  "searchItem item =
     bindE (js_prop item ''symbol'') (\<lambda>symbol.
       Inr (JObj [(''symbol'', symbol),
                  (''name'', js_get item ''name''),
                  (''exchange'', js_or (js_get item ''exchangeShortName'') (js_get item ''exchange'')),
                  (''currency'', js_get item ''currency'')]))"

definition searchStocks :: "env \<Rightarrow> io \<Rightarrow> string \<Rightarrow> jsval \<times> io" where
  "searchStocks e s query =
     (if \<not> checkApiKey e then (JArr [], s)
      else case encodeURIComponent e query of
        Inl err \<Rightarrow> (JArr [], s)
      | Inr q \<Rightarrow>
          fetchOk e s
            (FMP_BASE_URL @ ''/search-symbol?query='' @ q @ ''&limit=10&apikey='' @ FMP_API_KEY e)
            (JArr [])
            (\<lambda>data. case data of
                JArr items \<Rightarrow> bindE (mapE searchItem items) (\<lambda>xs. Inr (JArr xs))
              | _ \<Rightarrow> Inr (JArr [])))"

text \<open>\<^verbatim>\<open>Array.isArray(data) ? data.slice(0, 10) : []\<close>\<close>

definition firstTen :: "jsval \<Rightarrow> js_error + jsval" where
  "firstTen data = (case data of JArr items \<Rightarrow> Inr (JArr (slice0 10 items)) | _ \<Rightarrow> Inr (JArr []))"

definition fetchMarketGainers :: "env \<Rightarrow> io \<Rightarrow> jsval \<times> io" where
  "fetchMarketGainers e s =
     (if \<not> checkApiKey e then (JArr [], s)
      else fetchOk e s (FMP_BASE_URL @ ''/biggest-gainers?apikey='' @ FMP_API_KEY e)
             (JArr []) firstTen)"

definition fetchMarketLosers :: "env \<Rightarrow> io \<Rightarrow> jsval \<times> io" where
  "fetchMarketLosers e s =
     (if \<not> checkApiKey e then (JArr [], s)
      else fetchOk e s (FMP_BASE_URL @ ''/biggest-losers?apikey='' @ FMP_API_KEY e)
             (JArr []) firstTen)"

definition fetchEconomicIndicator :: "env \<Rightarrow> io \<Rightarrow> string \<Rightarrow> jsval \<times> io" where
  "fetchEconomicIndicator e s indicator =
     (if \<not> checkApiKey e then (JArr [], s)
      else fetchOk e s
             (FMP_BASE_URL @ ''/economic-indicators?name='' @ indicator
                @ ''&apikey='' @ FMP_API_KEY e)
             (JArr []) firstTen)"

section \<open>FMP service (app/services/fmpService.ts)\<close>

definition fmpService_API_KEY :: "env \<Rightarrow> string" where
  "fmpService_API_KEY e = str_or (EXPO_PUBLIC_FMP_API_KEY (cfg e)) []"

definition API_ENDPOINT :: string where
  "API_ENDPOINT = ''https://financialmodelingprep.com/stable''"

definition IS_FMP_ENABLED :: "env \<Rightarrow> bool" where
  "IS_FMP_ENABLED e = (fmpService_API_KEY e \<noteq> [] \<and> length (fmpService_API_KEY e) > 5)"

text \<open>
  The part every method of the class repeats after its key check: \<^verbatim>\<open>fetch\<close>,
  \<^verbatim>\<open>await response.json()\<close>, \<^verbatim>\<open>if (data.error) return emptyResult\<close>, the method's own
  result \<open>k\<close>, and \<^verbatim>\<open>catch { return emptyResult }\<close>.
\<close>

definition fetchData ::
  "env \<Rightarrow> io \<Rightarrow> string \<Rightarrow> jsval \<Rightarrow> (jsval \<Rightarrow> jsval) \<Rightarrow> jsval \<times> io" where
  "fetchData e s url emptyResult k =
     (case doFetch e s url of
        (Inl err, s') \<Rightarrow> (emptyResult, s')
      | (Inr response, s') \<Rightarrow>
          (case bindE (hr_json response) (\<lambda>data.
                  bindE (js_prop data ''error'') (\<lambda>err.
                    if truthy err then Inr emptyResult else Inr (k data))) of
             Inl err \<Rightarrow> (emptyResult, s')
           | Inr v \<Rightarrow> (v, s')))"

text \<open>\<^verbatim>\<open>Array.isArray(data) ? data : []\<close>\<close>

definition arrayOrEmpty :: "jsval \<Rightarrow> jsval" where
  "arrayOrEmpty data = (case data of JArr items \<Rightarrow> JArr items | _ \<Rightarrow> JArr [])"

definition getQuote :: "env \<Rightarrow> io \<Rightarrow> string \<Rightarrow> jsval \<times> io" where
  "getQuote e s symbol =
     (if \<not> IS_FMP_ENABLED e then (JNull, s)
      else fetchData e s
             (API_ENDPOINT @ ''/quote?symbol='' @ symbol @ ''&apikey='' @ fmpService_API_KEY e)
             JNull firstOrSelf)"

text \<open>\<^verbatim>\<open>symbols.join(',')\<close>\<close>

fun join :: "string list \<Rightarrow> string" where
  "join [] = []"
| "join [x] = x"
| "join (x # y # ys) = x @ '','' @ join (y # ys)"

definition getMultipleQuotes :: "env \<Rightarrow> io \<Rightarrow> string list \<Rightarrow> jsval \<times> io" where
  "getMultipleQuotes e s symbols =
     (if \<not> IS_FMP_ENABLED e then (JArr [], s)
      else fetchData e s
             (API_ENDPOINT @ ''/quote?symbol='' @ join symbols @ ''&apikey='' @ fmpService_API_KEY e)
             (JArr []) arrayOrEmpty)"

definition getCompanyProfile :: "env \<Rightarrow> io \<Rightarrow> string \<Rightarrow> jsval \<times> io" where
  "getCompanyProfile e s symbol =
     (if \<not> IS_FMP_ENABLED e then (JNull, s)
      else fetchData e s
             (API_ENDPOINT @ ''/profile?symbol='' @ symbol @ ''&apikey='' @ fmpService_API_KEY e)
             JNull firstOrSelf)"

text \<open>getStockNews and getGeneralNews: disabled, no request is made.\<close>

definition getStockNews :: "env \<Rightarrow> io \<Rightarrow> string \<Rightarrow> nat \<Rightarrow> jsval \<times> io" where
  "getStockNews e s symbol limit = (JArr [], s)"

definition getGeneralNews :: "env \<Rightarrow> io \<Rightarrow> nat \<Rightarrow> jsval \<times> io" where
  "getGeneralNews e s limit = (JArr [], s)"

definition statementUrl :: "env \<Rightarrow> string \<Rightarrow> string \<Rightarrow> period \<Rightarrow> nat \<Rightarrow> string" where
  "statementUrl e path symbol p limit =
     API_ENDPOINT @ path @ ''?symbol='' @ symbol @ ''&period='' @ periodString p
       @ ''&limit='' @ decimal limit @ ''&apikey='' @ fmpService_API_KEY e"

definition getIncomeStatement :: "env \<Rightarrow> io \<Rightarrow> string \<Rightarrow> period \<Rightarrow> nat \<Rightarrow> jsval \<times> io" where
  "getIncomeStatement e s symbol p limit =
     (if \<not> IS_FMP_ENABLED e then (JArr [], s)
      else fetchData e s (statementUrl e ''/income-statement'' symbol p limit)
             (JArr []) arrayOrEmpty)"

definition getBalanceSheet :: "env \<Rightarrow> io \<Rightarrow> string \<Rightarrow> period \<Rightarrow> nat \<Rightarrow> jsval \<times> io" where
  "getBalanceSheet e s symbol p limit =
     (if \<not> IS_FMP_ENABLED e then (JArr [], s)
      else fetchData e s (statementUrl e ''/balance-sheet-statement'' symbol p limit)
             (JArr []) arrayOrEmpty)"

definition getCashFlowStatement :: "env \<Rightarrow> io \<Rightarrow> string \<Rightarrow> period \<Rightarrow> nat \<Rightarrow> jsval \<times> io" where
  "getCashFlowStatement e s symbol p limit =
     (if \<not> IS_FMP_ENABLED e then (JArr [], s)
      else fetchData e s (statementUrl e ''/cash-flow-statement'' symbol p limit)
             (JArr []) arrayOrEmpty)"

definition getKeyMetrics :: "env \<Rightarrow> io \<Rightarrow> string \<Rightarrow> period \<Rightarrow> nat \<Rightarrow> jsval \<times> io" where
  "getKeyMetrics e s symbol p limit =
     (if \<not> IS_FMP_ENABLED e then (JArr [], s)
      else fetchData e s (statementUrl e ''/key-metrics'' symbol p limit)
             (JArr []) arrayOrEmpty)"

definition getBiggestGainers :: "env \<Rightarrow> io \<Rightarrow> jsval \<times> io" where
  "getBiggestGainers e s =
     (if \<not> IS_FMP_ENABLED e then (JArr [], s)
      else fetchData e s (API_ENDPOINT @ ''/biggest-gainers?apikey='' @ fmpService_API_KEY e)
             (JArr []) arrayOrEmpty)"

definition getBiggestLosers :: "env \<Rightarrow> io \<Rightarrow> jsval \<times> io" where
  "getBiggestLosers e s =
     (if \<not> IS_FMP_ENABLED e then (JArr [], s)
      else fetchData e s (API_ENDPOINT @ ''/biggest-losers?apikey='' @ fmpService_API_KEY e)
             (JArr []) arrayOrEmpty)"

definition searchSymbol :: "env \<Rightarrow> io \<Rightarrow> string \<Rightarrow> nat \<Rightarrow> jsval \<times> io" where
  "searchSymbol e s query limit =
     (if \<not> IS_FMP_ENABLED e then (JArr [], s)
      else case encodeURIComponent e query of
        Inl err \<Rightarrow> (JArr [], s)
      | Inr q \<Rightarrow>
          fetchData e s
            (API_ENDPOINT @ ''/search?query='' @ q @ ''&limit='' @ decimal limit
               @ ''&apikey='' @ fmpService_API_KEY e)
            (JArr []) arrayOrEmpty)"

section \<open>News service (app/services/newsService.ts)\<close>

definition newsService_API_KEY :: "env \<Rightarrow> string" where
  "newsService_API_KEY e = str_or (EXPO_PUBLIC_NEWS_API_KEY (cfg e)) []"

definition newsService_API_ENDPOINT :: string where
  "newsService_API_ENDPOINT = ''https://newsapi.org/v2/everything''"

text \<open>Declared by the module and read nowhere.\<close>

definition IS_NEWS_ENABLED :: "env \<Rightarrow> bool" where
  "IS_NEWS_ENABLED e =
     (newsService_API_KEY e \<noteq> [] \<and> newsService_API_KEY e \<noteq> ''YOUR_NEWS_API_KEY_HERE'')"

text \<open>\<^verbatim>\<open>{ ...article, id: v }\<close>\<close>

fun withId :: "(string \<times> jsval) list \<Rightarrow> jsval \<Rightarrow> (string \<times> jsval) list" where
  "withId [] v = [(''id'', v)]"
| "withId ((k, x) # kvs) v = (if k = ''id'' then (k, v) # kvs else (k, x) # withId kvs v)"

text \<open>
  \<^verbatim>\<open>data.articles.filter(article => article.title && article.description)\<close>
  followed by the \<^verbatim>\<open>map\<close> that adds the id; \<open>i\<close> is the index in the filtered list.
\<close>

fun keptArticles :: "jsval list \<Rightarrow> js_error + jsval list" where
  "keptArticles [] = Inr []"
| "keptArticles (article # rest) =
     bindE (js_prop article ''title'') (\<lambda>title.
     bindE (keptArticles rest) (\<lambda>kept.
       if truthy title \<and> truthy (js_get article ''description'') then Inr (article # kept)
       else Inr kept))"

fun numbered :: "env \<Rightarrow> nat \<Rightarrow> jsval list \<Rightarrow> jsval list" where
  "numbered e i [] = []"
| "numbered e i (article # rest) =
     (case article of
        JObj kvs \<Rightarrow> JObj (withId kvs (JStr (''news_'' @ decimalInt (now e) @ ''_'' @ decimal i)))
      | _ \<Rightarrow> JObj [(''id'', JStr (''news_'' @ decimalInt (now e) @ ''_'' @ decimal i))])
     # numbered e (Suc i) rest"

definition articlesOfData :: "env \<Rightarrow> jsval \<Rightarrow> js_error + jsval list" where
  "articlesOfData e data =
     bindE (js_prop data ''status'') (\<lambda>status.
       if status \<noteq> JStr ''ok'' \<or> \<not> truthy (js_get data ''articles'') then Inr []
       else (case js_get data ''articles'' of
           JArr items \<Rightarrow> bindE (keptArticles items) (\<lambda>kept. Inr (numbered e 0 kept))
         | _ \<Rightarrow> Inl (notAFunction ''data.articles.filter'')))"

text \<open>
  searchFinancialNews. When the response is not ok its body is decoded and
  \<^verbatim>\<open>error.message\<close> is read for the log, which may throw; every path gives the
  empty list.
\<close>

definition searchFinancialNews :: "env \<Rightarrow> io \<Rightarrow> string \<Rightarrow> nat \<Rightarrow> jsval list \<times> io" where
  "searchFinancialNews e s query limit =
     (if newsService_API_KEY e = [] then ([], s)
      else
        (case doFetch e s
            (newsService_API_ENDPOINT @ ''?''
              @ urlSearchParams e
                  [(''q'', query @ '' saham OR pasar OR investasi OR ekonomi''),
                   (''language'', ''id''),
                   (''sortBy'', ''publishedAt''),
                   (''pageSize'', decimal limit),
                   (''apiKey'', newsService_API_KEY e)]) of
           (Inl err, s') \<Rightarrow> ([], s')
         | (Inr response, s') \<Rightarrow>
             if \<not> hr_ok response then ([], s')
             else (case bindE (hr_json response) (articlesOfData e) of
                     Inl err \<Rightarrow> ([], s')
                   | Inr items \<Rightarrow> (items, s'))))"

definition newsService_getStockNews :: "env \<Rightarrow> io \<Rightarrow> string \<Rightarrow> nat \<Rightarrow> jsval list \<times> io" where
  "newsService_getStockNews e s stockSymbol limit =
     searchFinancialNews e s (stockSymbol @ '' saham'') limit"

definition getMacroEconomicNews :: "env \<Rightarrow> io \<Rightarrow> nat \<Rightarrow> jsval list \<times> io" where
  "getMacroEconomicNews e s limit =
     searchFinancialNews e s ''inflasi BI suku bunga ekonomi Indonesia'' limit"

section \<open>Gemini service (app/services/geminiService.ts)\<close>

definition geminiService_API_KEY :: "env \<Rightarrow> string" where
  "geminiService_API_KEY e =
     str_or (extra_GEMINI_API_KEY (cfg e)) (str_or (EXPO_PUBLIC_GEMINI_API_KEY (cfg e)) [])"

definition MODEL_NAME :: string where
  "MODEL_NAME = ''gemini-2.5-flash''"

definition getStockNewsTool :: function_declaration where
  "getStockNewsTool =
     \<lparr>fd_name = ''get_stock_news'',
      fd_description = ''Mengambil berita terbaru untuk kode saham (ticker) tertentu dari Financial Modeling Prep. Gunakan ini ketika user bertanya tentang saham spesifik.'',
      fd_properties = [(''ticker'', ''Kode saham (Ticker Symbol), contoh: BBCA, TLKM, AAPL, GOTO, ASII.'')],
      fd_required = [''ticker'']\<rparr>"

definition getMacroNewsTool :: function_declaration where
  "getMacroNewsTool =
     \<lparr>fd_name = ''get_macro_news'',
      fd_description = ''Mengambil berita makro ekonomi atau keuangan umum dari NewsAPI. Gunakan ini ketika user bertanya tentang ekonomi, inflasi, suku bunga, atau pasar secara umum.'',
      fd_properties = [(''query'', ''Kata kunci pencarian berita, contoh: 'inflasi indonesia', 'the fed', 'ihsg', 'suku bunga BI'.'')],
      fd_required = [''query'']\<rparr>"

definition tools :: "function_declaration list list" where
  "tools = [[getStockNewsTool, getMacroNewsTool]]"

text \<open>The three kinds of part the service builds.\<close>

definition textPart :: "string \<Rightarrow> part" where
  "textPart t =
     \<lparr>p_text = Some t, p_inlineData = None, p_functionCall = None, p_functionResponse = None\<rparr>"

definition inlineDataPart :: "attachment \<Rightarrow> part" where
  "inlineDataPart att =
     \<lparr>p_text = None,
      p_inlineData = Some \<lparr>id_mimeType = att_mimeType att, id_data = att_data att\<rparr>,
      p_functionCall = None, p_functionResponse = None\<rparr>"

definition functionResponsePart :: "function_call \<Rightarrow> jsval \<Rightarrow> part" where
  "functionResponsePart call apiResult =
     \<lparr>p_text = None, p_inlineData = None, p_functionCall = None,
      p_functionResponse =
        Some \<lparr>fr_name = fc_name call,
              fr_response = JObj [(''result'', apiResult)],
              fr_id = fc_id call\<rparr>\<rparr>"

text \<open>Step 1: the past conversation, without placeholder messages.\<close>

definition pastContent :: "message list \<Rightarrow> chat_history_item list" where
  "pastContent history =
     map (\<lambda>msg. \<lparr>chi_role = (if msg_role msg = Assistant then RoleModel else RoleUser),
                 chi_parts = [textPart (msg_content msg)]\<rparr>)
       (filter (\<lambda>msg. \<not> (msg_isPlaceholder msg = Some True)) history)"

text \<open>Steps 2 and 3: the parts of the current message.\<close>

definition currentParts :: "string \<Rightarrow> attachment list \<Rightarrow> part list" where
  "currentParts currentMessage attachments =
     [textPart currentMessage]
       @ (if length attachments > 0 then map inlineDataPart attachments else [])"

definition unknownFunction :: jsval where
  "unknownFunction = JObj [(''error'', JStr ''Unknown function'')]"

text \<open>
  The body of the loop over the requested function calls. \<^verbatim>\<open>args.ticker\<close> and
  \<^verbatim>\<open>args.query\<close> are a \<^verbatim>\<open>TypeError\<close> when the call has no \<^verbatim>\<open>args\<close>.
\<close>

definition executeCall :: "env \<Rightarrow> io \<Rightarrow> function_call \<Rightarrow> (js_error + part) \<times> io" where
  "executeCall e s call =
     (if fc_name call = Some ''get_stock_news'' then
        (case fc_args call of
           None \<Rightarrow> (Inl (typeError ''ticker''), s)
         | Some args \<Rightarrow>
             (case fetchStockNews e s (map_of args ''ticker'') of
                (apiResult, s') \<Rightarrow> (Inr (functionResponsePart call (JArr apiResult)), s')))
      else if fc_name call = Some ''get_macro_news'' then
        (case fc_args call of
           None \<Rightarrow> (Inl (typeError ''query''), s)
         | Some args \<Rightarrow>
             (case fetchMacroNews e s (map_of args ''query'') of
                (apiResult, s') \<Rightarrow> (Inr (functionResponsePart call (JArr apiResult)), s')))
      else (Inr (functionResponsePart call unknownFunction), s))"

text \<open>The loop: \<open>functionResponses\<close> is the accumulator; an exception ends it.\<close>

fun executeCalls ::
  "env \<Rightarrow> io \<Rightarrow> part list \<Rightarrow> part list \<Rightarrow> (js_error + part list) \<times> io" where
  "executeCalls e s [] functionResponses = (Inr functionResponses, s)"
| "executeCalls e s (callPart # rest) functionResponses =
     (case p_functionCall callPart of
        None \<Rightarrow> executeCalls e s rest functionResponses
      | Some call \<Rightarrow>
          (case executeCall e s call of
             (Inl err, s') \<Rightarrow> (Inl err, s')
           | (Inr r, s') \<Rightarrow> executeCalls e s' rest (functionResponses @ [r])))"

text \<open>\<^verbatim>\<open>candidates && candidates[0]?.content?.parts\<close>\<close>

definition responseParts :: "response \<Rightarrow> part list option" where
  "responseParts response =
     (case rs_candidates response of
        None \<Rightarrow> None
      | Some [] \<Rightarrow> None
      | Some (c # cs) \<Rightarrow> (case cand_content c of None \<Rightarrow> None | Some ct \<Rightarrow> rsc_parts ct))"

definition firstRequest :: "env \<Rightarrow> chat_history_item list \<Rightarrow> part list \<Rightarrow> request" where
  "firstRequest e past parts =
     \<lparr>rq_model = MODEL_NAME,
      rq_contents = past @ [\<lparr>chi_role = RoleUser, chi_parts = parts\<rparr>],
      rq_config = \<lparr>rc_systemInstruction = SYSTEM_INSTRUCTION e,
                   rc_temperature = Some (7 / 10), rc_tools = tools\<rparr>\<rparr>"

definition secondRequest ::
  "env \<Rightarrow> chat_history_item list \<Rightarrow> part list \<Rightarrow> part list \<Rightarrow> part list \<Rightarrow> request" where
  "secondRequest e past parts modelParts functionResponses =
     \<lparr>rq_model = MODEL_NAME,
      rq_contents = past @ [\<lparr>chi_role = RoleUser, chi_parts = parts\<rparr>,
                            \<lparr>chi_role = RoleModel, chi_parts = modelParts\<rparr>,
                            \<lparr>chi_role = RoleUser, chi_parts = functionResponses\<rparr>],
      rq_config = \<lparr>rc_systemInstruction = SYSTEM_INSTRUCTION e,
                   rc_temperature = None, rc_tools = tools\<rparr>\<rparr>"

text \<open>Steps 5 and 6: the function calls of the first reply and the second request.\<close>

definition toolRound ::
  "env \<Rightarrow> io \<Rightarrow> chat_history_item list \<Rightarrow> part list \<Rightarrow> response
     \<Rightarrow> (js_error + response) \<times> io" where
  "toolRound e s past parts response =
     (case responseParts response of
        None \<Rightarrow> (Inr response, s)
      | Some modelParts \<Rightarrow>
          (let functionCalls = filter (\<lambda>p. p_functionCall p \<noteq> None) modelParts in
           if length functionCalls > 0 then
             (case executeCalls e s functionCalls [] of
                (Inl err, s') \<Rightarrow> (Inl err, s')
              | (Inr functionResponses, s') \<Rightarrow>
                  doGenerateContent e s' (secondRequest e past parts modelParts functionResponses))
           else (Inr response, s)))"

definition defaultText :: string where
  "defaultText = ''Maaf, saya tidak dapat menghasilkan respon saat ini.''"

text \<open>Step 7: \<^verbatim>\<open>response.text || "Maaf, ..."\<close>\<close>

definition finalText :: "response \<Rightarrow> string" where
  "finalText response =
     (case rs_text response of None \<Rightarrow> defaultText | Some t \<Rightarrow> if t \<noteq> [] then t else defaultText)"

text \<open>\<^verbatim>\<open>response.candidates?.[0]?.groundingMetadata?.groundingChunks\<close>\<close>

definition groundingChunks :: "response \<Rightarrow> grounding_chunk list option" where
  "groundingChunks response =
     (case rs_candidates response of
        None \<Rightarrow> None
      | Some [] \<Rightarrow> None
      | Some (c # cs) \<Rightarrow>
          (case cand_groundingMetadata c of None \<Rightarrow> None | Some gm \<Rightarrow> gm_groundingChunks gm))"

text \<open>\<^verbatim>\<open>chunk.web.title || new URL(chunk.web.uri).hostname\<close>\<close>

definition sourceTitle :: "env \<Rightarrow> web_ref \<Rightarrow> js_error + string" where
  "sourceTitle e web =
     (case web_title web of
        None \<Rightarrow> hostname e (web_uri web)
      | Some t \<Rightarrow> if t \<noteq> [] then Inr t else hostname e (web_uri web))"

text \<open>Step 8: the \<^verbatim>\<open>forEach\<close> over the grounding chunks.\<close>

fun sourcesOfChunks :: "env \<Rightarrow> grounding_chunk list \<Rightarrow> js_error + grounding_source list" where
  "sourcesOfChunks e [] = Inr []"
| "sourcesOfChunks e (chunk # rest) =
     (case gc_web chunk of
        None \<Rightarrow> sourcesOfChunks e rest
      | Some web \<Rightarrow>
          (case sourceTitle e web of
             Inl err \<Rightarrow> Inl err
           | Inr t \<Rightarrow>
               (case sourcesOfChunks e rest of
                  Inl err \<Rightarrow> Inl err
                | Inr srcs \<Rightarrow> Inr (\<lparr>gs_uri = web_uri web, gs_title = t\<rparr> # srcs))))"

definition extractSources :: "env \<Rightarrow> response \<Rightarrow> js_error + grounding_source list" where
  "extractSources e response =
     (case groundingChunks response of None \<Rightarrow> Inr [] | Some chunks \<Rightarrow> sourcesOfChunks e chunks)"

text \<open>The returned object \<^verbatim>\<open>{ text, sources }\<close>.\<close>

record advice =
  adv_text :: string
  adv_sources :: "grounding_source list"

definition missingKeyError :: js_error where
  "missingKeyError = newError
     ''API Key Gemini tidak dikonfigurasi. Silakan set EXPO_PUBLIC_GEMINI_API_KEY di .env''"

text \<open>
  The \<^verbatim>\<open>try\<close> block. Its result is the returned object and the new
  \<^verbatim>\<open>conversationHistory\<close>, or the exception thrown.
\<close>

definition tryBlock ::
  "env \<Rightarrow> chat_history_item list \<Rightarrow> io \<Rightarrow> message list \<Rightarrow> string \<Rightarrow> attachment list
     \<Rightarrow> (js_error + advice \<times> chat_history_item list) \<times> io" where
  "tryBlock e conversationHistory s history currentMessage attachments =
     (if geminiService_API_KEY e = [] then (Inl missingKeyError, s)
      else
        (let past = pastContent history;
             parts = currentParts currentMessage attachments
         in case doGenerateContent e s (firstRequest e past parts) of
              (Inl err, s1) \<Rightarrow> (Inl err, s1)
            | (Inr response1, s1) \<Rightarrow>
                (case toolRound e s1 past parts response1 of
                   (Inl err, s2) \<Rightarrow> (Inl err, s2)
                 | (Inr response, s2) \<Rightarrow>
                     (case extractSources e response of
                        Inl err \<Rightarrow> (Inl err, s2)
                      | Inr srcs \<Rightarrow>
                          (Inr (\<lparr>adv_text = finalText response, adv_sources = srcs\<rparr>,
                                conversationHistory
                                  @ [\<lparr>chi_role = RoleUser, chi_parts = parts\<rparr>,
                                     \<lparr>chi_role = RoleModel,
                                      chi_parts = [textPart (finalText response)]\<rparr>]),
                           s2)))))"

text \<open>The messages of the \<^verbatim>\<open>catch\<close> block.\<close>

definition genericMessage :: string where
  "genericMessage = ''Maaf, terjadi kesalahan saat menghubungkan ke layanan AI.''"

definition configurationMessage :: string where
  "configurationMessage =
     ''API Key tidak valid atau belum dikonfigurasi. Silakan cek EXPO_PUBLIC_GEMINI_API_KEY di file .env''"

definition networkMessage :: string where
  "networkMessage = ''Gagal terhubung ke server. Periksa koneksi internet Anda.''"

definition quotaMessage :: string where
  "quotaMessage = ''Kuota API habis. Silakan coba lagi nanti atau upgrade plan API Anda.''"

text \<open>
  \<^verbatim>\<open>error.message?.includes(sub)\<close>, as a condition. Reading \<^verbatim>\<open>message\<close>
  is a \<^verbatim>\<open>TypeError\<close> when the thrown value is \<^verbatim>\<open>null\<close> or
  \<^verbatim>\<open>undefined\<close>; a missing or \<^verbatim>\<open>null\<close> message makes the condition
  \<^verbatim>\<open>undefined\<close>; a string and an array have an \<^verbatim>\<open>includes\<close> method; on
  any other message the call is a \<^verbatim>\<open>TypeError\<close>.
\<close>

definition messageIncludes :: "js_error \<Rightarrow> string \<Rightarrow> js_error + bool" where
  "messageIncludes err sub =
     bindE (js_prop err ''message'')
       (\<lambda>msg. case msg of
            JUndefined \<Rightarrow> Inr False
          | JNull \<Rightarrow> Inr False
          | JStr m \<Rightarrow> Inr (str_includes m sub)
          | JArr items \<Rightarrow> Inr (List.member items (JStr sub))
          | _ \<Rightarrow> Inl (notAFunction ''error.message.includes''))"

text \<open>The \<^verbatim>\<open>if\<close> chain of the \<^verbatim>\<open>catch\<close> block: the message it selects.\<close>

definition errorMessage :: "js_error \<Rightarrow> js_error + string" where
  "errorMessage err =
     bindE (messageIncludes err ''API Key'') (\<lambda>apiKey.
       if apiKey then Inr configurationMessage
       else bindE (messageIncludes err ''network'') (\<lambda>network.
         bindE (if network then Inr True else messageIncludes err ''fetch'') (\<lambda>unreachable.
           if unreachable then Inr networkMessage
           else bindE (messageIncludes err ''quota'') (\<lambda>quota.
             if quota then Inr quotaMessage else Inr genericMessage))))"

text \<open>The \<^verbatim>\<open>catch\<close> block: the object it returns, or the exception it throws.\<close>

definition catchBlock :: "js_error \<Rightarrow> js_error + advice" where
  "catchBlock err =
     bindE (errorMessage err) (\<lambda>t. Inr \<lparr>adv_text = t, adv_sources = []\<rparr>)"

text \<open>
  generateFinancialAdvice: the \<^verbatim>\<open>try\<close> block and its \<^verbatim>\<open>catch\<close>. The result is
  the returned object, or the exception that leaves the function, then the service's
  \<^verbatim>\<open>conversationHistory\<close> and the requests made.
\<close>

definition generateFinancialAdvice ::
  "env \<Rightarrow> chat_history_item list \<Rightarrow> io \<Rightarrow> message list \<Rightarrow> string \<Rightarrow> attachment list
     \<Rightarrow> (js_error + advice) \<times> chat_history_item list \<times> io" where
  "generateFinancialAdvice e conversationHistory s history currentMessage attachments =
     (case tryBlock e conversationHistory s history currentMessage attachments of
        (Inr (result, conversationHistory'), s') \<Rightarrow> (Inr result, conversationHistory', s')
      | (Inl err, s') \<Rightarrow> (catchBlock err, conversationHistory, s'))"

section \<open>Firestore service (app/services/firestoreService.ts)\<close>

text \<open>
  removeUndefined. The parameter is an object. \<open>cleanProps\<close> is the \<^verbatim>\<open>for ... in\<close>
  loop over an object's properties and \<open>cleanIndexed\<close> the same loop over an array
  (its keys are its indices), which the recursive call meets when an element of an
  array is itself an array: the result is then an object keyed by the indices.
  \<open>cleanValue\<close> is the body of the loop for a property that is not undefined and
  \<open>cleanItems\<close> the \<^verbatim>\<open>map\<close> over the elements of an array.
\<close>

fun removeUndefined :: "jsval \<Rightarrow> jsval"
  and cleanProps :: "(string \<times> jsval) list \<Rightarrow> (string \<times> jsval) list"
  and cleanIndexed :: "nat \<Rightarrow> jsval list \<Rightarrow> (string \<times> jsval) list"
  and cleanValue :: "jsval \<Rightarrow> jsval"
  and cleanItems :: "jsval list \<Rightarrow> jsval list"
where
  "removeUndefined (JObj kvs) = JObj (cleanProps kvs)"
| "removeUndefined (JArr items) = JObj (cleanIndexed 0 items)"
| "removeUndefined JUndefined = JObj []"
| "removeUndefined JNull = JObj []"
| "removeUndefined (JBool b) = JObj []"
| "removeUndefined (JNum n) = JObj []"
| "removeUndefined (JStr s) = JObj []"
| "cleanProps [] = []"
| "cleanProps ((key, v) # kvs) =
     (if v \<noteq> JUndefined then (key, cleanValue v) # cleanProps kvs else cleanProps kvs)"
| "cleanIndexed i [] = []"
| "cleanIndexed i (v # vs) =
     (if v \<noteq> JUndefined then (decimal i, cleanValue v) # cleanIndexed (Suc i) vs
      else cleanIndexed (Suc i) vs)"
| "cleanValue (JArr items) = JArr (cleanItems items)"
| "cleanValue (JObj kvs) = removeUndefined (JObj kvs)"
| "cleanValue JUndefined = JUndefined"
| "cleanValue JNull = JNull"
| "cleanValue (JBool b) = JBool b"
| "cleanValue (JNum n) = JNum n"
| "cleanValue (JStr s) = JStr s"
| "cleanItems [] = []"
| "cleanItems (item # items) =
     (case item of
        JObj kvs \<Rightarrow> removeUndefined item
      | JArr xs \<Rightarrow> removeUndefined item
      | _ \<Rightarrow> item) # cleanItems items"

definition roleString :: "role \<Rightarrow> string" where
  "roleString r = (case r of User \<Rightarrow> ''user'' | Assistant \<Rightarrow> ''assistant'')"

definition fileTypeString :: "file_type \<Rightarrow> string" where
  "fileTypeString t =
     (case t of Pdf \<Rightarrow> ''pdf'' | Excel \<Rightarrow> ''excel'' | Csv \<Rightarrow> ''csv'' | Txt \<Rightarrow> ''txt'')"

text \<open>
  The object literal both cleaning functions build for an attachment: the
  \<^verbatim>\<open>content\<close> of the attachment is not copied.
\<close>

definition attachmentFields :: "file_attachment \<Rightarrow> jsval" where
  "attachmentFields att =
     JObj [(''id'', JStr (fa_id att)),
           (''name'', JStr (fa_name att)),
           (''type'', JStr (fileTypeString (fa_type att))),
           (''size'', JNum (of_int (fa_size att))),
           (''mimeType'', JStr (fa_mimeType att)),
           (''uri'', js_or (JStr (fa_uri att)) (JStr []))]"

definition sourceFields :: "grounding_source \<Rightarrow> jsval" where
  "sourceFields src =
     JObj [(''uri'', js_or (JStr (gs_uri src)) (JStr [])),
           (''title'', js_or (JStr (gs_title src)) (JStr []))]"

definition cleanMessage :: "message \<Rightarrow> jsval" where
  "cleanMessage msg =
     removeUndefined (JObj
       [(''id'', JStr (msg_id msg)),
        (''content'', JStr (msg_content msg)),
        (''role'', JStr (roleString (msg_role msg))),
        (''timestamp'', JNum (of_int (msg_timestamp msg))),
        (''attachments'',
           (case msg_attachments msg of
              None \<Rightarrow> JArr []
            | Some atts \<Rightarrow> JArr (map (\<lambda>att. removeUndefined (attachmentFields att)) atts))),
        (''sources'',
           (case msg_sources msg of
              None \<Rightarrow> JArr []
            | Some srcs \<Rightarrow> JArr (map sourceFields srcs)))])"

text \<open>
  The document store. A chat document holds the five fields saveChatSession writes;
  \<^verbatim>\<open>updatedAt\<close> is written as the \<^verbatim>\<open>serverTimestamp()\<close> sentinel and stored as
  the server's time. Documents are keyed by user id and session id. \<^verbatim>\<open>setDoc\<close> and
  \<^verbatim>\<open>getDoc\<close> reject when the store is unavailable.
\<close>

record chat_doc =
  doc_title :: string
  doc_messages :: "jsval list"
  doc_attachments :: "jsval list"
  doc_createdAt :: int
  doc_updatedAt :: int

record firestore =
  fs_currentUser :: "string option"
  fs_docs :: "string \<times> string \<Rightarrow> chat_doc option"
  fs_unavailable :: bool
  fs_serverTime :: int

text \<open>The object handed to \<^verbatim>\<open>setDoc\<close>, without the sentinel.\<close>

record write_data =
  wd_title :: string
  wd_messages :: "jsval list"
  wd_attachments :: "jsval list"
  wd_createdAt :: int

text \<open>
  \<^verbatim>\<open>setDoc(ref, data, { merge: true })\<close>: the five fields of the data replace the
  document's.
\<close>

definition setDoc :: "firestore \<Rightarrow> string \<times> string \<Rightarrow> write_data \<Rightarrow> js_error + firestore" where
  "setDoc fs ref d =
     (if fs_unavailable fs then Inl (newError ''unavailable'')
      else Inr (fs\<lparr>fs_docs := (fs_docs fs)(ref :=
              Some \<lparr>doc_title = wd_title d, doc_messages = wd_messages d,
                    doc_attachments = wd_attachments d, doc_createdAt = wd_createdAt d,
                    doc_updatedAt = fs_serverTime fs\<rparr>)\<rparr>))"

definition getDoc :: "firestore \<Rightarrow> string \<times> string \<Rightarrow> js_error + chat_doc option" where
  "getDoc fs ref =
     (if fs_unavailable fs then Inl (newError ''unavailable'') else Inr (fs_docs fs ref))"

definition getUserId :: "firestore \<Rightarrow> js_error + string" where
  "getUserId fs =
     (case fs_currentUser fs of
        None \<Rightarrow> Inl (newError ''User not authenticated'')
      | Some uid \<Rightarrow> Inr uid)"

definition writeData :: "env \<Rightarrow> chat_session \<Rightarrow> write_data" where
  "writeData e session =
     \<lparr>wd_title = (if cs_title session \<noteq> [] then cs_title session else ''Chat Baru''),
      wd_messages = map cleanMessage (cs_messages session),
      wd_attachments = map (\<lambda>att. removeUndefined (attachmentFields att)) (cs_attachments session),
      wd_createdAt = (if cs_createdAt session \<noteq> 0 then cs_createdAt session else now e)\<rparr>"

text \<open>saveChatSession: an exception is logged and thrown again.\<close>

definition firestoreService_saveChatSession ::
  "env \<Rightarrow> firestore \<Rightarrow> chat_session \<Rightarrow> js_error + firestore" where
  "firestoreService_saveChatSession e fs session =
     bindE (getUserId fs) (\<lambda>userId. setDoc fs (userId, cs_id session) (writeData e session))"

text \<open>
  What getChatSession returns: a session whose messages and attachments are the
  stored objects.
\<close>

record stored_session =
  ss_id :: string
  ss_title :: string
  ss_messages :: "jsval list"
  ss_attachments :: "jsval list"
  ss_createdAt :: int
  ss_updatedAt :: int

text \<open>getChatSession: \<^verbatim>\<open>null\<close> when the document does not exist and on any exception.\<close>

definition firestoreService_getChatSession ::
  "env \<Rightarrow> firestore \<Rightarrow> string \<Rightarrow> stored_session option" where
  "firestoreService_getChatSession e fs sessionId =
     (case bindE (getUserId fs) (\<lambda>userId. getDoc fs (userId, sessionId)) of
        Inl err \<Rightarrow> None
      | Inr None \<Rightarrow> None
      | Inr (Some d) \<Rightarrow>
          Some \<lparr>ss_id = sessionId, ss_title = doc_title d,
                ss_messages = doc_messages d, ss_attachments = doc_attachments d,
                ss_createdAt = (if doc_createdAt d \<noteq> 0 then doc_createdAt d else now e),
                ss_updatedAt = doc_updatedAt d\<rparr>)"

section \<open>Storage service (the local store, services/storageService.ts)\<close>

text \<open>
  The key-value store: the list of sessions under the sessions key, as
  \<^verbatim>\<open>JSON.parse\<close> gives it back (\<open>None\<close> when the key is not set), and whether
  reading or writing the key rejects.
\<close>

record async_storage =
  as_sessions :: "chat_session list option"
  as_readFails :: bool
  as_writeFails :: bool

definition storageService_getAllChatSessions :: "async_storage \<Rightarrow> chat_session list" where
  "storageService_getAllChatSessions st =
     (if as_readFails st then []
      else (case as_sessions st of None \<Rightarrow> [] | Some sessions \<Rightarrow> sessions))"

text \<open>\<^verbatim>\<open>xs.findIndex(p)\<close>: \<open>None\<close> for \<^verbatim>\<open>-1\<close>.\<close>

fun findIndex :: "('a \<Rightarrow> bool) \<Rightarrow> 'a list \<Rightarrow> nat option" where
  "findIndex p [] = None"
| "findIndex p (x # xs) =
     (if p x then Some 0 else (case findIndex p xs of None \<Rightarrow> None | Some i \<Rightarrow> Some (Suc i)))"

definition storageService_saveChatSession ::
  "async_storage \<Rightarrow> chat_session \<Rightarrow> js_error + async_storage" where
  "storageService_saveChatSession st session =
     (let sessions = storageService_getAllChatSessions st;
          sessions' = (case findIndex (\<lambda>s. cs_id s = cs_id session) sessions of
                         Some existingIndex \<Rightarrow> sessions[existingIndex := session]
                       | None \<Rightarrow> sessions @ [session])
      in if as_writeFails st then Inl (newError ''setItem failed'')
         else Inr (st\<lparr>as_sessions := Some sessions'\<rparr>))"

definition storageService_getChatSession ::
  "async_storage \<Rightarrow> string \<Rightarrow> chat_session option" where
  "storageService_getChatSession st sessionId =
     find (\<lambda>s. cs_id s = sessionId) (storageService_getAllChatSessions st)"

section \<open>Notions used in the statements\<close>

text \<open>A function call names one of the two declared tools.\<close>

definition registered :: "function_call \<Rightarrow> bool" where
  "registered call =
     (fc_name call = Some ''get_stock_news'' \<or> fc_name call = Some ''get_macro_news'')"

text \<open>A call that names a declared tool carries an argument object.\<close>

definition resolvable :: "function_call \<Rightarrow> bool" where
  "resolvable call = (if registered call then fc_args call \<noteq> None else True)"

text \<open>\<open>r\<close> is a function response to \<open>call\<close> whose result is an array.\<close>

definition arrayResult :: "function_call \<Rightarrow> part \<Rightarrow> bool" where
  "arrayResult call r =
     (case p_functionResponse r of
        None \<Rightarrow> False
      | Some fr \<Rightarrow>
          (case fr_response fr of
             JObj [(k, JArr items)] \<Rightarrow> r = functionResponsePart call (JArr items)
           | _ \<Rightarrow> False))"

text \<open>
  \<open>r\<close> is the tool result for the request \<open>callPart\<close>: a function response with the
  request's name and id, whose result is the empty array for get_stock_news, an array
  for get_macro_news and the unknown-function error object for any other name.
\<close>

definition answers :: "part \<Rightarrow> part \<Rightarrow> bool" where
  "answers callPart r =
     (case p_functionCall callPart of
        None \<Rightarrow> False
      | Some call \<Rightarrow>
          (if fc_name call = Some ''get_stock_news'' then r = functionResponsePart call (JArr [])
           else if fc_name call = Some ''get_macro_news'' then arrayResult call r
           else r = functionResponsePart call unknownFunction))"

text \<open>
  What the function returns, or throws, once \<open>reply\<close> is the outcome of the last
  request to the backend.
\<close>

definition finish :: "env \<Rightarrow> js_error + response \<Rightarrow> js_error + advice" where
  "finish e reply =
     (case reply of
        Inl err \<Rightarrow> catchBlock err
      | Inr response \<Rightarrow>
          (case extractSources e response of
             Inl err \<Rightarrow> catchBlock err
           | Inr srcs \<Rightarrow> Inr \<lparr>adv_text = finalText response, adv_sources = srcs\<rparr>))"

text \<open>
  The message the \<^verbatim>\<open>catch\<close> block selects for an \<^verbatim>\<open>Error\<close> with the
  message \<open>m\<close>.
\<close>

definition selectedMessage :: "string \<Rightarrow> string" where
  "selectedMessage m =
     (if str_includes m ''API Key'' then configurationMessage
      else if str_includes m ''network'' \<or> str_includes m ''fetch'' then networkMessage
      else if str_includes m ''quota'' then quotaMessage
      else genericMessage)"

text \<open>The web references of a list of grounding chunks, in order.\<close>

fun webRefs :: "grounding_chunk list \<Rightarrow> web_ref list" where
  "webRefs [] = []"
| "webRefs (chunk # rest) =
     (case gc_web chunk of None \<Rightarrow> webRefs rest | Some web \<Rightarrow> web # webRefs rest)"

text \<open>The backend supplies a title for the reference.\<close>

definition titled :: "web_ref \<Rightarrow> bool" where
  "titled web = (case web_title web of None \<Rightarrow> False | Some t \<Rightarrow> t \<noteq> [])"

text \<open>
  No \<^verbatim>\<open>undefined\<close> anywhere in a value: not the value itself, no property value
  and no array element, at any depth.
\<close>

fun noUndefined :: "jsval \<Rightarrow> bool"
  and noUndefinedList :: "jsval list \<Rightarrow> bool"
  and noUndefinedProps :: "(string \<times> jsval) list \<Rightarrow> bool"
where
  "noUndefined JUndefined = False"
| "noUndefined JNull = True"
| "noUndefined (JBool b) = True"
| "noUndefined (JNum n) = True"
| "noUndefined (JStr s) = True"
| "noUndefined (JArr xs) = noUndefinedList xs"
| "noUndefined (JObj kvs) = noUndefinedProps kvs"
| "noUndefinedList [] = True"
| "noUndefinedList (x # xs) = (noUndefined x \<and> noUndefinedList xs)"
| "noUndefinedProps [] = True"
| "noUndefinedProps ((k, v) # kvs) = (noUndefined v \<and> noUndefinedProps kvs)"

text \<open>
  No property whose value is \<^verbatim>\<open>undefined\<close>, in the value or in any object inside
  it (an array may still hold \<^verbatim>\<open>undefined\<close> as an element).
\<close>

fun noUndefinedField :: "jsval \<Rightarrow> bool"
  and noUndefinedFieldList :: "jsval list \<Rightarrow> bool"
  and noUndefinedFieldProps :: "(string \<times> jsval) list \<Rightarrow> bool"
where
  "noUndefinedField (JArr xs) = noUndefinedFieldList xs"
| "noUndefinedField (JObj kvs) = noUndefinedFieldProps kvs"
| "noUndefinedField JUndefined = True"
| "noUndefinedField JNull = True"
| "noUndefinedField (JBool b) = True"
| "noUndefinedField (JNum n) = True"
| "noUndefinedField (JStr s) = True"
| "noUndefinedFieldList [] = True"
| "noUndefinedFieldList (x # xs) = (noUndefinedField x \<and> noUndefinedFieldList xs)"
| "noUndefinedFieldProps [] = True"
| "noUndefinedFieldProps ((k, v) # kvs) =
     (v \<noteq> JUndefined \<and> noUndefinedField v \<and> noUndefinedFieldProps kvs)"

text \<open>No array, at any depth, holds \<^verbatim>\<open>undefined\<close> as an element.\<close>

fun arraysDefined :: "jsval \<Rightarrow> bool"
  and arraysDefinedList :: "jsval list \<Rightarrow> bool"
  and arraysDefinedProps :: "(string \<times> jsval) list \<Rightarrow> bool"
where
  "arraysDefined (JArr xs) = arraysDefinedList xs"
| "arraysDefined (JObj kvs) = arraysDefinedProps kvs"
| "arraysDefined JUndefined = True"
| "arraysDefined JNull = True"
| "arraysDefined (JBool b) = True"
| "arraysDefined (JNum n) = True"
| "arraysDefined (JStr s) = True"
| "arraysDefinedList [] = True"
| "arraysDefinedList (x # xs) = (x \<noteq> JUndefined \<and> arraysDefined x \<and> arraysDefinedList xs)"
| "arraysDefinedProps [] = True"
| "arraysDefinedProps ((k, v) # kvs) = (arraysDefined v \<and> arraysDefinedProps kvs)"

text \<open>
  The stored form of a message: its id, content, role and timestamp, its attachments
  without their content, and its sources; a missing list is stored as the empty list.
\<close>

definition storedMessage :: "message \<Rightarrow> jsval" where
  "storedMessage msg =
     JObj [(''id'', JStr (msg_id msg)),
           (''content'', JStr (msg_content msg)),
           (''role'', JStr (roleString (msg_role msg))),
           (''timestamp'', JNum (of_int (msg_timestamp msg))),
           (''attachments'',
              JArr (map attachmentFields (case msg_attachments msg of None \<Rightarrow> [] | Some atts \<Rightarrow> atts))),
           (''sources'',
              JArr (map sourceFields (case msg_sources msg of None \<Rightarrow> [] | Some srcs \<Rightarrow> srcs)))]"

section \<open>Example inputs\<close>

definition functionCallPart :: "function_call \<Rightarrow> part" where
  "functionCallPart call =
     \<lparr>p_text = None, p_inlineData = None, p_functionCall = Some call, p_functionResponse = None\<rparr>"

text \<open>A reply of the backend with the given text and parts and no grounding.\<close>

definition replyOfParts :: "string option \<Rightarrow> part list \<Rightarrow> js_error + response" where
  "replyOfParts t ps =
     Inr \<lparr>rs_text = t,
          rs_candidates = Some [\<lparr>cand_content = Some \<lparr>rsc_parts = Some ps\<rparr>,
                                  cand_groundingMetadata = None\<rparr>]\<rparr>"

text \<open>A reply with text and grounding chunks.\<close>

definition groundedReply :: "string \<Rightarrow> grounding_chunk list \<Rightarrow> response" where
  "groundedReply t chunks =
     \<lparr>rs_text = Some t,
      rs_candidates = Some [\<lparr>cand_content = Some \<lparr>rsc_parts = Some [textPart t]\<rparr>,
                              cand_groundingMetadata =
                                Some \<lparr>gm_groundingChunks = Some chunks\<rparr>\<rparr>]\<rparr>"

text \<open>Host names of https URLs; anything else is no URL.\<close>

definition exampleHostname :: "string \<Rightarrow> js_error + string" where
  "exampleHostname uri =
     (if prefix ''https://'' uri then Inr (takeWhile (\<lambda>c. c \<noteq> CHR ''/'') (drop 8 uri))
      else Inl (newError ''Invalid URL''))"

definition exampleConfig :: config where
  "exampleConfig =
     \<lparr>extra_GEMINI_API_KEY = None, extra_FMP_API_KEY = None, extra_NEWS_API_KEY = None,
      EXPO_PUBLIC_GEMINI_API_KEY = Some ''example-gemini-key'',
      EXPO_PUBLIC_FMP_API_KEY = None, EXPO_PUBLIC_NEWS_API_KEY = None\<rparr>"

text \<open>
  An environment with a Gemini key and no other key, whose backend gives the listed
  replies in turn, and whose network answers every request with one article.
\<close>

definition exampleArticles :: jsval where
  "exampleArticles =
     JObj [(''status'', JStr ''ok''),
           (''articles'', JArr [JObj [(''title'', JStr ''IHSG menguat''),
                                      (''description'', JStr ''Ringkasan''),
                                      (''url'', JStr ''https://news.example/ihsg'')]])]"

definition exampleEnv :: "config \<Rightarrow> (js_error + response) list \<Rightarrow> env" where
  "exampleEnv c replies =
     \<lparr>cfg = c,
      SYSTEM_INSTRUCTION = ''Anda adalah Asisten Penasihat Keuangan'',
      generateContent = (\<lambda>earlier rq.
        if length earlier < length replies then replies ! length earlier
        else Inl (newError ''fetch failed'')),
      fetch = (\<lambda>earlier url. Inr \<lparr>hr_ok = True, hr_json = Inr exampleArticles\<rparr>),
      encodeURIComponent = Inr,
      urlSearchParams = (\<lambda>kvs. concat (map (\<lambda>(k, v). k @ ''='' @ v @ ''&'') kvs)),
      hostname = exampleHostname,
      parseInt = (\<lambda>v. v),
      now = 1700000000000,
      nowISO = ''2023-11-14T22:13:20.000Z''\<rparr>"

definition io0 :: io where
  "io0 = \<lparr>calls = [], fetched = []\<rparr>"

definition stockCall :: function_call where
  "stockCall = \<lparr>fc_id = Some ''call-1'', fc_name = Some ''get_stock_news'',
                 fc_args = Some [(''ticker'', ''BBCA'')]\<rparr>"

definition stockCallNoArgs :: function_call where
  "stockCallNoArgs =
     \<lparr>fc_id = Some ''call-1'', fc_name = Some ''get_stock_news'', fc_args = None\<rparr>"

definition macroCallNoArgs :: function_call where
  "macroCallNoArgs =
     \<lparr>fc_id = Some ''call-2'', fc_name = Some ''get_macro_news'', fc_args = None\<rparr>"

definition unknownCall :: function_call where
  "unknownCall = \<lparr>fc_id = Some ''call-0'', fc_name = Some ''get_weather'',
                   fc_args = Some [(''city'', ''Jakarta'')]\<rparr>"

definition exampleFile :: "file_type \<Rightarrow> int \<Rightarrow> string \<Rightarrow> file_attachment" where
  "exampleFile t n c =
     \<lparr>fa_id = ''file_1'', fa_name = ''laporan'', fa_type = t, fa_size = n,
      fa_uri = ''file:///cache/laporan'', fa_content = c, fa_mimeType = ''application/pdf''\<rparr>"

definition exampleMessage :: "string \<Rightarrow> role \<Rightarrow> bool option \<Rightarrow> message" where
  "exampleMessage c r flag =
     \<lparr>msg_id = ''1'', msg_content = c, msg_role = r, msg_timestamp = 1700000000000,
      msg_attachments = None, msg_sources = None, msg_isPlaceholder = flag\<rparr>"

definition exampleSession :: "string \<Rightarrow> message list \<Rightarrow> chat_session" where
  "exampleSession title msgs =
     \<lparr>cs_id = ''chat_1'', cs_title = title, cs_messages = msgs,
      cs_createdAt = 1700000000000, cs_updatedAt = 1700000000500,
      cs_attachments = [exampleFile Pdf 2048 ''JVBERi0='']\<rparr>"

definition exampleFirestore :: firestore where
  "exampleFirestore =
     \<lparr>fs_currentUser = Some ''uid-1'', fs_docs = (\<lambda>ref. None), fs_unavailable = False,
      fs_serverTime = 1700000001000\<rparr>"

definition exampleStorage :: "chat_session list option \<Rightarrow> async_storage" where
  "exampleStorage sessions =
     \<lparr>as_sessions = sessions, as_readFails = False, as_writeFails = False\<rparr>"

section \<open>The orchestrator: shared facts\<close>

lemma executeCall_calls: "executeCall e s c = (r, s') \<Longrightarrow> calls s' = calls s"
  by (auto simp: executeCall_def fetchStockNews_def fetchMacroNews_def
      fetchMacroNewsFromNewsAPI_def doFetch_def
      split: if_splits option.splits sum.splits prod.splits)

lemma executeCalls_calls: "executeCalls e s ps acc = (r, s') \<Longrightarrow> calls s' = calls s"
proof (induction ps arbitrary: s acc)
  case Nil
  then show ?case by simp
next
  case (Cons p ps)
  show ?case
  proof (cases "p_functionCall p")
    case None
    with Cons show ?thesis by simp
  next
    case (Some c)
    obtain r1 s1 where ec: "executeCall e s c = (r1, s1)" by (cases "executeCall e s c")
    then have c1: "calls s1 = calls s" by (rule executeCall_calls)
    show ?thesis
    proof (cases r1)
      case (Inl err)
      with Cons.prems Some ec c1 show ?thesis by simp
    next
      case (Inr x)
      with Cons.prems Some ec have "executeCalls e s1 ps (acc @ [x]) = (r, s')" by simp
      then have "calls s' = calls s1" by (rule Cons.IH)
      with c1 show ?thesis by simp
    qed
  qed
qed

lemma executeCall_unknown:
  "\<not> registered call \<Longrightarrow>
   executeCall e s call = (Inr (functionResponsePart call unknownFunction), s)"
  by (simp add: executeCall_def registered_def)

lemma arrayResult_functionResponsePart:
  "arrayResult call (functionResponsePart call (JArr items))"
  by (simp add: arrayResult_def functionResponsePart_def)

lemma executeCall_resolvable:
  assumes "resolvable call" and "p_functionCall callPart = Some call"
  shows "\<exists>r s'. executeCall e s call = (Inr r, s') \<and> answers callPart r"
proof (cases "registered call")
  case False
  with assms show ?thesis by (simp add: executeCall_unknown answers_def registered_def)
next
  case True
  with assms obtain args where args: "fc_args call = Some args"
    by (auto simp: resolvable_def)
  show ?thesis
  proof (cases "fc_name call = Some ''get_stock_news''")
    case stock: True
    then show ?thesis using args assms True
      by (simp add: executeCall_def fetchStockNews_def answers_def)
  next
    case False
    with True have macro: "fc_name call = Some ''get_macro_news''" by (simp add: registered_def)
    obtain items s' where "fetchMacroNews e s (map_of args ''query'') = (items, s')"
      by (cases "fetchMacroNews e s (map_of args ''query'')")
    then show ?thesis using args assms True macro
      by (simp add: executeCall_def answers_def arrayResult_functionResponsePart)
  qed
qed

lemma executeCalls_resolvable:
  assumes "\<forall>p \<in> set ps. p_functionCall p \<noteq> None"
    and "\<forall>p \<in> set ps. \<forall>c. p_functionCall p = Some c \<longrightarrow> resolvable c"
  shows "\<exists>frs s'. executeCalls e s ps acc = (Inr (acc @ frs), s') \<and> list_all2 answers ps frs"
  using assms
proof (induction ps arbitrary: s acc)
  case Nil
  then show ?case by simp
next
  case (Cons p ps)
  from Cons.prems obtain c where c: "p_functionCall p = Some c" by auto
  with Cons.prems have "resolvable c" by simp
  then obtain r s1 where r: "executeCall e s c = (Inr r, s1)" and a: "answers p r"
    using executeCall_resolvable [OF _ c] by blast
  from Cons.prems
  have "\<exists>frs s'. executeCalls e s1 ps (acc @ [r]) = (Inr ((acc @ [r]) @ frs), s')
          \<and> list_all2 answers ps frs"
    by (intro Cons.IH) simp_all
  then obtain frs s' where "executeCalls e s1 ps (acc @ [r]) = (Inr ((acc @ [r]) @ frs), s')"
    and "list_all2 answers ps frs"
    by blast
  with c r a have "executeCalls e s (p # ps) acc = (Inr (acc @ (r # frs)), s')
      \<and> list_all2 answers (p # ps) (r # frs)"
    by simp
  then show ?case by blast
qed

lemma toolRound_calls:
  assumes "toolRound e s past parts response = (r, s')"
  shows "calls s' = calls s \<or> (\<exists>rq. calls s' = calls s @ [rq])"
proof (cases "responseParts response")
  case None
  with assms show ?thesis by (simp add: toolRound_def)
next
  case (Some modelParts)
  let ?fcs = "filter (\<lambda>p. p_functionCall p \<noteq> None) modelParts"
  show ?thesis
  proof (cases "?fcs = []")
    case True
    with assms Some show ?thesis by (simp add: toolRound_def)
  next
    case False
    obtain r1 s1 where ex: "executeCalls e s ?fcs [] = (r1, s1)"
      by (cases "executeCalls e s ?fcs []")
    then have c1: "calls s1 = calls s" by (rule executeCalls_calls)
    show ?thesis
    proof (cases r1)
      case (Inl err)
      with assms Some False ex c1 show ?thesis by (simp add: toolRound_def)
    next
      case (Inr frs)
      with assms Some False ex c1 show ?thesis
        by (auto simp: toolRound_def doGenerateContent_def)
    qed
  qed
qed

lemma tryBlock_calls:
  assumes "tryBlock e h s history m atts = (r, s')"
  shows "length (calls s') \<le> length (calls s) + 2"
proof (cases "geminiService_API_KEY e = []")
  case True
  with assms show ?thesis by (simp add: tryBlock_def)
next
  case False
  let ?past = "pastContent history" and ?parts = "currentParts m atts"
  let ?s1 = "s\<lparr>calls := calls s @ [firstRequest e ?past ?parts]\<rparr>"
  show ?thesis
  proof (cases "generateContent e (calls s) (firstRequest e ?past ?parts)")
    case (Inl err)
    with assms False show ?thesis by (auto simp: tryBlock_def doGenerateContent_def Let_def)
  next
    case (Inr response1)
    obtain r2 s2 where tr: "toolRound e ?s1 ?past ?parts response1 = (r2, s2)"
      by (cases "toolRound e ?s1 ?past ?parts response1")
    from toolRound_calls [OF tr] have "length (calls s2) \<le> length (calls s) + 2" by auto
    moreover from assms False Inr tr have "s' = s2"
      by (auto simp: tryBlock_def doGenerateContent_def Let_def split: sum.splits)
    ultimately show ?thesis by simp
  qed
qed

lemma generateFinancialAdvice_calls:
  "length (calls (snd (snd (generateFinancialAdvice e h s history m atts))))
     \<le> length (calls s) + 2"
proof -
  obtain r s' where tb: "tryBlock e h s history m atts = (r, s')"
    by (cases "tryBlock e h s history m atts")
  then have "snd (snd (generateFinancialAdvice e h s history m atts)) = s'"
    by (simp add: generateFinancialAdvice_def split: sum.splits prod.splits)
  with tryBlock_calls [OF tb] show ?thesis by simp
qed

lemma toolRound_resolved:
  assumes parts: "responseParts response1 = Some modelParts"
    and nonempty: "filter (\<lambda>p. p_functionCall p \<noteq> None) modelParts \<noteq> []"
    and res: "\<forall>p \<in> set modelParts. \<forall>c. p_functionCall p = Some c \<longrightarrow> resolvable c"
  shows "\<exists>frs s2.
           executeCalls e s1 (filter (\<lambda>p. p_functionCall p \<noteq> None) modelParts) [] = (Inr frs, s2)
           \<and> list_all2 answers (filter (\<lambda>p. p_functionCall p \<noteq> None) modelParts) frs
           \<and> calls s2 = calls s1
           \<and> toolRound e s1 past ps response1
               = (generateContent e (calls s1) (secondRequest e past ps modelParts frs),
                  s2\<lparr>calls := calls s1 @ [secondRequest e past ps modelParts frs]\<rparr>)"
proof -
  let ?fcs = "filter (\<lambda>p. p_functionCall p \<noteq> None) modelParts"
  have "\<exists>frs s'. executeCalls e s1 ?fcs [] = (Inr ([] @ frs), s') \<and> list_all2 answers ?fcs frs"
    using res by (intro executeCalls_resolvable) auto
  then obtain frs s2 where ex: "executeCalls e s1 ?fcs [] = (Inr frs, s2)"
    and ans: "list_all2 answers ?fcs frs" by auto
  from ex have c: "calls s2 = calls s1" by (rule executeCalls_calls)
  from parts nonempty ex c
  have "toolRound e s1 past ps response1
          = (generateContent e (calls s1) (secondRequest e past ps modelParts frs),
             s2\<lparr>calls := calls s1 @ [secondRequest e past ps modelParts frs]\<rparr>)"
    by (simp add: toolRound_def doGenerateContent_def)
  with ex ans c show ?thesis by blast
qed

lemma generateFinancialAdvice_after_toolRound:
  assumes key: "geminiService_API_KEY e \<noteq> []"
    and first: "generateContent e (calls s)
                  (firstRequest e (pastContent history) (currentParts m atts)) = Inr response1"
    and tr: "toolRound e
               (s\<lparr>calls := calls s @ [firstRequest e (pastContent history) (currentParts m atts)]\<rparr>)
               (pastContent history) (currentParts m atts) response1 = (reply, s2)"
  shows "fst (generateFinancialAdvice e h s history m atts) = finish e reply"
    and "snd (snd (generateFinancialAdvice e h s history m atts)) = s2"
  using assms
  by (auto simp: generateFinancialAdvice_def tryBlock_def doGenerateContent_def Let_def
      finish_def split: sum.splits)

text \<open>
  A turn whose first reply requests tool calls that all can be resolved: the results
  answer the requests one by one, the second request carries them, and the function
  returns what the second reply gives.
\<close>

lemma turn_with_tools:
  assumes key: "geminiService_API_KEY e \<noteq> []"
    and first: "generateContent e (calls s)
                  (firstRequest e (pastContent history) (currentParts m atts)) = Inr response1"
    and parts: "responseParts response1 = Some modelParts"
    and nonempty: "filter (\<lambda>p. p_functionCall p \<noteq> None) modelParts \<noteq> []"
    and res: "\<forall>p \<in> set modelParts. \<forall>c. p_functionCall p = Some c \<longrightarrow> resolvable c"
  shows "\<exists>frs s2.
      executeCalls e
          (s\<lparr>calls := calls s @ [firstRequest e (pastContent history) (currentParts m atts)]\<rparr>)
          (filter (\<lambda>p. p_functionCall p \<noteq> None) modelParts) [] = (Inr frs, s2)
      \<and> list_all2 answers (filter (\<lambda>p. p_functionCall p \<noteq> None) modelParts) frs
      \<and> snd (snd (generateFinancialAdvice e h s history m atts))
          = s2\<lparr>calls := calls s @ [firstRequest e (pastContent history) (currentParts m atts),
                secondRequest e (pastContent history) (currentParts m atts) modelParts frs]\<rparr>
      \<and> fst (generateFinancialAdvice e h s history m atts)
          = finish e (generateContent e
              (calls s @ [firstRequest e (pastContent history) (currentParts m atts)])
              (secondRequest e (pastContent history) (currentParts m atts) modelParts frs))"
proof -
  let ?past = "pastContent history" and ?ps = "currentParts m atts"
  let ?req1 = "firstRequest e ?past ?ps"
  let ?s1 = "s\<lparr>calls := calls s @ [?req1]\<rparr>"
  let ?fcs = "filter (\<lambda>p. p_functionCall p \<noteq> None) modelParts"
  obtain frs s2 where ex: "executeCalls e ?s1 ?fcs [] = (Inr frs, s2)"
    and ans: "list_all2 answers ?fcs frs"
    and tr: "toolRound e ?s1 ?past ?ps response1
               = (generateContent e (calls ?s1) (secondRequest e ?past ?ps modelParts frs),
                  s2\<lparr>calls := calls ?s1 @ [secondRequest e ?past ?ps modelParts frs]\<rparr>)"
    using toolRound_resolved [OF parts nonempty res, of e ?s1 ?past ?ps] by blast
  from key first tr have "fst (generateFinancialAdvice e h s history m atts)
      = finish e (generateContent e (calls ?s1) (secondRequest e ?past ?ps modelParts frs))"
    by (intro generateFinancialAdvice_after_toolRound(1)) simp_all
  moreover from key first tr have "snd (snd (generateFinancialAdvice e h s history m atts))
      = s2\<lparr>calls := calls ?s1 @ [secondRequest e ?past ?ps modelParts frs]\<rparr>"
    by (intro generateFinancialAdvice_after_toolRound(2)) simp_all
  ultimately show ?thesis using ex ans by auto
qed

text \<open>The contents of the second request: those of the first, the model's turn, the results.\<close>

lemma secondRequest_contents:
  "rq_contents (secondRequest e past ps modelParts frs)
     = rq_contents (firstRequest e past ps)
         @ [\<lparr>chi_role = RoleModel, chi_parts = modelParts\<rparr>,
            \<lparr>chi_role = RoleUser, chi_parts = frs\<rparr>]"
  by (simp add: secondRequest_def firstRequest_def)

text \<open>
  The \<^verbatim>\<open>catch\<close> block on an exception whose \<^verbatim>\<open>message\<close> is a string, on one
  without a message, and on \<^verbatim>\<open>undefined\<close> and \<^verbatim>\<open>null\<close>.
\<close>

lemma messageIncludes_string:
  "js_prop err ''message'' = Inr (JStr m) \<Longrightarrow> messageIncludes err sub = Inr (str_includes m sub)"
  by (simp add: messageIncludes_def bindE_def)

lemma errorMessage_string:
  "js_prop err ''message'' = Inr (JStr m) \<Longrightarrow> errorMessage err = Inr (selectedMessage m)"
  by (simp add: errorMessage_def messageIncludes_string bindE_def selectedMessage_def)

lemma catchBlock_string:
  "js_prop err ''message'' = Inr (JStr m)
   \<Longrightarrow> catchBlock err = Inr \<lparr>adv_text = selectedMessage m, adv_sources = []\<rparr>"
  by (simp add: catchBlock_def errorMessage_string bindE_def)

lemma catchBlock_newError:
  "catchBlock (newError m) = Inr \<lparr>adv_text = selectedMessage m, adv_sources = []\<rparr>"
  by (rule catchBlock_string) (simp add: newError_def)

lemma catchBlock_no_message:
  "js_prop err ''message'' = Inr JUndefined \<or> js_prop err ''message'' = Inr JNull
   \<Longrightarrow> catchBlock err = Inr \<lparr>adv_text = genericMessage, adv_sources = []\<rparr>"
  by (auto simp: catchBlock_def errorMessage_def messageIncludes_def bindE_def)

lemma catchBlock_nullish:
  "catchBlock JUndefined = Inl (typeError ''message'')"
  "catchBlock JNull = Inl (typeErrorOf ''null'' ''message'')"
  by (simp_all add: catchBlock_def errorMessage_def messageIncludes_def bindE_def)

lemma selectedMessage_nonempty: "selectedMessage m \<noteq> []"
  by (simp add: selectedMessage_def configurationMessage_def networkMessage_def quotaMessage_def
      genericMessage_def)

lemma errorMessage_cases:
  "errorMessage err = Inr t
   \<Longrightarrow> t \<in> {configurationMessage, networkMessage, quotaMessage, genericMessage}"
  by (auto simp: errorMessage_def bindE_def split: sum.splits if_splits)

lemma catchBlock_returns:
  assumes "catchBlock err = Inr adv"
  shows "adv_sources adv = []"
    and "adv_text adv \<in> {configurationMessage, networkMessage, quotaMessage, genericMessage}"
proof -
  from assms obtain t where t: "errorMessage err = Inr t"
    and adv: "adv = \<lparr>adv_text = t, adv_sources = []\<rparr>"
    by (auto simp: catchBlock_def bindE_def split: sum.splits)
  from adv show "adv_sources adv = []" by simp
  from errorMessage_cases [OF t] adv
  show "adv_text adv \<in> {configurationMessage, networkMessage, quotaMessage, genericMessage}"
    by simp
qed

lemma finalText_nonempty: "finalText response \<noteq> []"
  by (simp add: finalText_def defaultText_def split: option.splits)

text \<open>
  What the function does with an exception of the \<^verbatim>\<open>try\<close> block: the outcome is
  that of the \<^verbatim>\<open>catch\<close> block and the internal history is as it was. For an
  \<^verbatim>\<open>Error\<close> with a string message this is the object with the selected message
  and no sources.
\<close>

lemma generateFinancialAdvice_catch:
  "tryBlock e h s history m atts = (Inl err, s')
   \<Longrightarrow> generateFinancialAdvice e h s history m atts = (catchBlock err, h, s')"
  by (simp add: generateFinancialAdvice_def)

lemma generateFinancialAdvice_missing_key:
  "geminiService_API_KEY e = []
   \<Longrightarrow> generateFinancialAdvice e h s history m atts
       = (Inr \<lparr>adv_text = configurationMessage, adv_sources = []\<rparr>, h, s)"
  by (simp add: generateFinancialAdvice_def tryBlock_def missingKeyError_def
      catchBlock_newError selectedMessage_def)

lemma generateFinancialAdvice_rejected:
  "geminiService_API_KEY e \<noteq> []
   \<Longrightarrow> generateContent e (calls s)
         (firstRequest e (pastContent history) (currentParts m atts)) = Inl err
   \<Longrightarrow> generateFinancialAdvice e h s history m atts
       = (catchBlock err, h,
          s\<lparr>calls := calls s @ [firstRequest e (pastContent history) (currentParts m atts)]\<rparr>)"
  by (simp add: generateFinancialAdvice_def tryBlock_def doGenerateContent_def Let_def)
lemma sourcesOfChunks_webRefs:
  assumes "list_all (\<lambda>w. titled w \<or> isl (hostname e (web_uri w)) = False) (webRefs chunks)"
  shows "sourcesOfChunks e chunks
     = Inr (map (\<lambda>w. \<lparr>gs_uri = web_uri w,
                       gs_title = (if titled w then the (web_title w)
                                   else projr (hostname e (web_uri w)))\<rparr>)
             (webRefs chunks))"
  using assms
proof (induction chunks)
  case Nil
  then show ?case by simp
next
  case (Cons chunk rest)
  show ?case
  proof (cases "gc_web chunk")
    case None
    with Cons show ?thesis by simp
  next
    case (Some web)
    with Cons.prems have rest: "list_all (\<lambda>w. titled w \<or> isl (hostname e (web_uri w)) = False) (webRefs rest)"
      and this_one: "titled web \<or> isl (hostname e (web_uri web)) = False"
      by simp_all
    have "sourceTitle e web
        = Inr (if titled web then the (web_title web) else projr (hostname e (web_uri web)))"
      using this_one
      by (cases "hostname e (web_uri web)")
         (auto simp: sourceTitle_def titled_def split: option.splits)
    with Some Cons.IH [OF rest] show ?thesis by simp
  qed
qed

lemma tryBlock_shape:
  assumes "tryBlock e h s history m atts = (r, s')"
  shows "calls s' = calls s
     \<or> calls s' = calls s @ [firstRequest e (pastContent history) (currentParts m atts)]
     \<or> (\<exists>modelParts frs. calls s'
          = calls s @ [firstRequest e (pastContent history) (currentParts m atts),
               secondRequest e (pastContent history) (currentParts m atts) modelParts frs])"
proof (cases "geminiService_API_KEY e = []")
  case True
  with assms show ?thesis by (simp add: tryBlock_def)
next
  case False
  let ?past = "pastContent history" and ?parts = "currentParts m atts"
  let ?s1 = "s\<lparr>calls := calls s @ [firstRequest e ?past ?parts]\<rparr>"
  show ?thesis
  proof (cases "generateContent e (calls s) (firstRequest e ?past ?parts)")
    case (Inl err)
    with assms False show ?thesis by (auto simp: tryBlock_def doGenerateContent_def Let_def)
  next
    case (Inr response1)
    obtain r2 s2 where tr: "toolRound e ?s1 ?past ?parts response1 = (r2, s2)"
      by (cases "toolRound e ?s1 ?past ?parts response1")
    from assms False Inr tr have s': "s' = s2"
      by (auto simp: tryBlock_def doGenerateContent_def Let_def split: sum.splits)
    show ?thesis
    proof (cases "responseParts response1")
      case None
      with tr s' show ?thesis by (auto simp: toolRound_def)
    next
      case (Some modelParts)
      let ?fcs = "filter (\<lambda>p. p_functionCall p \<noteq> None) modelParts"
      show ?thesis
      proof (cases "?fcs = []")
        case True
        with tr s' Some show ?thesis by (auto simp: toolRound_def)
      next
        case nonempty: False
        obtain r1 s1 where ex: "executeCalls e ?s1 ?fcs [] = (r1, s1)"
          by (cases "executeCalls e ?s1 ?fcs []")
        then have c1: "calls s1 = calls ?s1" by (rule executeCalls_calls)
        show ?thesis
        proof (cases r1)
          case (Inl err)
          with tr s' Some nonempty ex c1 show ?thesis by (auto simp: toolRound_def)
        next
          case (Inr frs)
          with tr s' Some nonempty ex c1
          have "calls s' = calls s @ [firstRequest e ?past ?parts,
                  secondRequest e ?past ?parts modelParts frs]"
            by (auto simp: toolRound_def doGenerateContent_def)
          then show ?thesis by blast
        qed
      qed
    qed
  qed
qed

lemma firstRequest_sent:
  assumes "geminiService_API_KEY e \<noteq> []"
  shows "\<exists>rest. calls (snd (snd (generateFinancialAdvice e h s history m atts)))
           = calls s @ firstRequest e (pastContent history) (currentParts m atts) # rest"
proof -
  let ?past = "pastContent history" and ?parts = "currentParts m atts"
  let ?s1 = "s\<lparr>calls := calls s @ [firstRequest e ?past ?parts]\<rparr>"
  obtain r s' where tb: "tryBlock e h s history m atts = (r, s')"
    by (cases "tryBlock e h s history m atts")
  then have out: "snd (snd (generateFinancialAdvice e h s history m atts)) = s'"
    by (simp add: generateFinancialAdvice_def split: sum.splits prod.splits)
  have "\<exists>rest. calls s' = calls s @ firstRequest e ?past ?parts # rest"
  proof (cases "generateContent e (calls s) (firstRequest e ?past ?parts)")
    case (Inl err)
    with tb assms show ?thesis by (auto simp: tryBlock_def doGenerateContent_def Let_def)
  next
    case (Inr response1)
    obtain r2 s2 where tr: "toolRound e ?s1 ?past ?parts response1 = (r2, s2)"
      by (cases "toolRound e ?s1 ?past ?parts response1")
    from tb assms Inr tr have "s' = s2"
      by (auto simp: tryBlock_def doGenerateContent_def Let_def split: sum.splits)
    with toolRound_calls [OF tr] show ?thesis by auto
  qed
  with out show ?thesis by simp
qed

section \<open>The orchestrator: the claims\<close>


text \<open>
  The exceptions of the \<^verbatim>\<open>try\<close> block: the missing-key error, the
  \<^verbatim>\<open>TypeError\<close> of \<^verbatim>\<open>args.ticker\<close> or \<^verbatim>\<open>args.query\<close>, a rejection of
  the backend, or what \<^verbatim>\<open>new URL\<close> threw.
\<close>

lemma executeCall_errors:
  "executeCall e s call = (Inl err, s')
   \<Longrightarrow> err = typeError ''ticker'' \<or> err = typeError ''query''"
  by (auto simp: executeCall_def split: if_splits option.splits prod.splits)

lemma executeCalls_errors:
  "executeCalls e s ps acc = (Inl err, s')
   \<Longrightarrow> err = typeError ''ticker'' \<or> err = typeError ''query''"
proof (induction ps arbitrary: s acc)
  case Nil
  then show ?case by simp
next
  case (Cons p ps)
  show ?case
  proof (cases "p_functionCall p")
    case None
    with Cons show ?thesis by simp
  next
    case (Some c)
    obtain r1 s1 where ec: "executeCall e s c = (r1, s1)" by (cases "executeCall e s c")
    show ?thesis
    proof (cases r1)
      case (Inl err1)
      with Cons.prems Some ec have "err1 = err" by simp
      with Inl ec executeCall_errors show ?thesis by blast
    next
      case (Inr x)
      with Cons.prems Some ec have "executeCalls e s1 ps (acc @ [x]) = (Inl err, s')" by simp
      then show ?thesis by (rule Cons.IH)
    qed
  qed
qed

lemma sourcesOfChunks_errors:
  "sourcesOfChunks e chunks = Inl err \<Longrightarrow> \<exists>uri. hostname e uri = Inl err"
proof (induction chunks)
  case Nil
  then show ?case by simp
next
  case (Cons chunk rest)
  show ?case
  proof (cases "gc_web chunk")
    case None
    with Cons show ?thesis by simp
  next
    case (Some web)
    show ?thesis
    proof (cases "sourceTitle e web")
      case (Inl err1)
      with Cons.prems Some have "err1 = err" by simp
      with Inl have "hostname e (web_uri web) = Inl err"
        by (auto simp: sourceTitle_def split: option.splits if_splits)
      then show ?thesis by blast
    next
      case (Inr t)
      with Cons.prems Some have "sourcesOfChunks e rest = Inl err"
        by (auto split: sum.splits)
      then show ?thesis by (rule Cons.IH)
    qed
  qed
qed

lemma toolRound_errors:
  assumes "toolRound e s past ps response = (Inl err, s')"
  shows "err = typeError ''ticker'' \<or> err = typeError ''query''
     \<or> (\<exists>earlier rq. generateContent e earlier rq = Inl err)"
proof (cases "responseParts response")
  case None
  with assms show ?thesis by (simp add: toolRound_def)
next
  case (Some modelParts)
  let ?fcs = "filter (\<lambda>p. p_functionCall p \<noteq> None) modelParts"
  show ?thesis
  proof (cases "?fcs = []")
    case True
    with assms Some show ?thesis by (simp add: toolRound_def)
  next
    case False
    obtain r1 s1 where ex: "executeCalls e s ?fcs [] = (r1, s1)"
      by (cases "executeCalls e s ?fcs []")
    show ?thesis
    proof (cases r1)
      case (Inl err1)
      with assms Some False ex have "err1 = err" by (simp add: toolRound_def)
      with Inl ex executeCalls_errors show ?thesis by blast
    next
      case (Inr frs)
      with assms Some False ex
      have "generateContent e (calls s1) (secondRequest e past ps modelParts frs) = Inl err"
        by (simp add: toolRound_def doGenerateContent_def)
      then show ?thesis by blast
    qed
  qed
qed

lemma tryBlock_errors:
  assumes "tryBlock e h s history m atts = (Inl err, s')"
  shows "err = missingKeyError \<or> err = typeError ''ticker'' \<or> err = typeError ''query''
     \<or> (\<exists>earlier rq. generateContent e earlier rq = Inl err)
     \<or> (\<exists>uri. hostname e uri = Inl err)"
proof (cases "geminiService_API_KEY e = []")
  case True
  with assms show ?thesis by (simp add: tryBlock_def)
next
  case False
  let ?past = "pastContent history" and ?parts = "currentParts m atts"
  let ?s1 = "s\<lparr>calls := calls s @ [firstRequest e ?past ?parts]\<rparr>"
  show ?thesis
  proof (cases "generateContent e (calls s) (firstRequest e ?past ?parts)")
    case (Inl err1)
    with assms False have "err1 = err"
      by (simp add: tryBlock_def doGenerateContent_def Let_def)
    with Inl show ?thesis by blast
  next
    case (Inr response1)
    obtain r2 s2 where tr: "toolRound e ?s1 ?past ?parts response1 = (r2, s2)"
      by (cases "toolRound e ?s1 ?past ?parts response1")
    show ?thesis
    proof (cases r2)
      case (Inl err2)
      with assms False Inr tr have "err2 = err"
        by (simp add: tryBlock_def doGenerateContent_def Let_def)
      with Inl tr toolRound_errors show ?thesis by blast
    next
      case r: (Inr response)
      with assms False Inr tr have "extractSources e response = Inl err"
        by (auto simp: tryBlock_def doGenerateContent_def Let_def split: sum.splits)
      then have "\<exists>uri. hostname e uri = Inl err"
        by (auto simp: extractSources_def split: option.splits intro: sourcesOfChunks_errors)
      then show ?thesis by blast
    qed
  qed
qed

text \<open>
  When every exception of the backend and of \<^verbatim>\<open>new URL\<close> is an \<^verbatim>\<open>Error\<close>
  with a string message, the function returns an object with a text that is not
  empty: the reply's, or one of the four fallback messages.
\<close>

lemma generateFinancialAdvice_returns:
  assumes backend: "\<And>earlier rq err. generateContent e earlier rq = Inl err
                      \<Longrightarrow> \<exists>msg. js_prop err ''message'' = Inr (JStr msg)"
    and url: "\<And>uri err. hostname e uri = Inl err
                      \<Longrightarrow> \<exists>msg. js_prop err ''message'' = Inr (JStr msg)"
  shows "\<exists>adv. fst (generateFinancialAdvice e h s history m atts) = Inr adv \<and> adv_text adv \<noteq> []"
proof -
  obtain r s' where tb: "tryBlock e h s history m atts = (r, s')"
    by (cases "tryBlock e h s history m atts")
  show ?thesis
  proof (cases r)
    case (Inl err)
    with tb tryBlock_errors
    have "err = missingKeyError \<or> err = typeError ''ticker'' \<or> err = typeError ''query''
        \<or> (\<exists>earlier rq. generateContent e earlier rq = Inl err)
        \<or> (\<exists>uri. hostname e uri = Inl err)"
      by blast
    with backend url have "\<exists>msg. js_prop err ''message'' = Inr (JStr msg)"
      by (auto simp: missingKeyError_def typeErrorOf_def newError_def)
    then obtain msg where "js_prop err ''message'' = Inr (JStr msg)" by blast
    then have "catchBlock err = Inr \<lparr>adv_text = selectedMessage msg, adv_sources = []\<rparr>"
      by (rule catchBlock_string)
    with tb Inl show ?thesis
      by (simp add: generateFinancialAdvice_def selectedMessage_nonempty)
  next
    case (Inr ok)
    obtain adv h' where ok: "ok = (adv, h')" by (cases ok)
    with tb Inr have "adv_text adv \<noteq> []"
      by (auto simp: tryBlock_def Let_def finalText_nonempty
          split: if_splits sum.splits prod.splits)
    with tb Inr ok show ?thesis by (simp add: generateFinancialAdvice_def)
  qed
qed

text \<open>
  C2. The tool round can be skipped. When the first reply requests get_stock_news
  without an argument object, reading \<^verbatim>\<open>args.ticker\<close> throws a
  \<^verbatim>\<open>TypeError\<close>, which ends the \<^verbatim>\<open>try\<close> block: no tool result is produced,
  no second request is made (the backend is called once) and the turn ends with the
  generic fallback message, although the backend would have answered a second
  request.
\<close>

theorem tool_round_skipped:
  "responseParts (projr (replyOfParts None [functionCallPart stockCallNoArgs]))
     = Some [\<lparr>p_text = None, p_inlineData = None,
              p_functionCall = Some \<lparr>fc_id = Some ''call-1'', fc_name = Some ''get_stock_news'',
                                      fc_args = None\<rparr>,
              p_functionResponse = None\<rparr>]
   \<and> executeCalls
        (exampleEnv exampleConfig
           [replyOfParts None [functionCallPart stockCallNoArgs], replyOfParts (Some ''Jawaban'') []])
        io0 [functionCallPart stockCallNoArgs] []
      = (Inl (typeError ''ticker''), io0)
   \<and> generateFinancialAdvice
        (exampleEnv exampleConfig
           [replyOfParts None [functionCallPart stockCallNoArgs], replyOfParts (Some ''Jawaban'') []])
        [] io0 [] ''Analisis BBCA'' []
      = (Inr \<lparr>adv_text = ''Maaf, terjadi kesalahan saat menghubungkan ke layanan AI.'',
              adv_sources = []\<rparr>, [],
         \<lparr>calls = [firstRequest
                     (exampleEnv exampleConfig
                        [replyOfParts None [functionCallPart stockCallNoArgs],
                         replyOfParts (Some ''Jawaban'') []])
                     [] (currentParts ''Analisis BBCA'' [])],
          fetched = []\<rparr>)
   \<and> length (calls (snd (snd (generateFinancialAdvice
        (exampleEnv exampleConfig
           [replyOfParts None [functionCallPart stockCallNoArgs], replyOfParts (Some ''Jawaban'') []])
        [] io0 [] ''Analisis BBCA'' [])))) = 1"
proof -
  let ?e = "exampleEnv exampleConfig
             [replyOfParts None [functionCallPart stockCallNoArgs], replyOfParts (Some ''Jawaban'') []]"
  have a: "responseParts (projr (replyOfParts None [functionCallPart stockCallNoArgs]))
     = Some [\<lparr>p_text = None, p_inlineData = None,
              p_functionCall = Some \<lparr>fc_id = Some ''call-1'', fc_name = Some ''get_stock_news'',
                                      fc_args = None\<rparr>,
              p_functionResponse = None\<rparr>]"
    by (simp add: replyOfParts_def responseParts_def functionCallPart_def stockCallNoArgs_def)
  have b: "executeCalls ?e io0 [functionCallPart stockCallNoArgs] [] = (Inl (typeError ''ticker''), io0)"
    by (simp add: functionCallPart_def stockCallNoArgs_def executeCall_def)
  have c: "catchBlock (typeError ''ticker'') = Inr \<lparr>adv_text = genericMessage, adv_sources = []\<rparr>"
    by (simp add: typeErrorOf_def newError_def catchBlock_def errorMessage_def
        messageIncludes_def bindE_def)
  have d: "generateFinancialAdvice ?e [] io0 [] ''Analisis BBCA'' []
      = (Inr \<lparr>adv_text = genericMessage, adv_sources = []\<rparr>, [],
         \<lparr>calls = [firstRequest ?e [] (currentParts ''Analisis BBCA'' [])], fetched = []\<rparr>)"
    by (simp add: generateFinancialAdvice_def tryBlock_def exampleEnv_def exampleConfig_def
      io0_def doGenerateContent_def geminiService_API_KEY_def str_or_def
      pastContent_def toolRound_def replyOfParts_def responseParts_def functionCallPart_def
      stockCallNoArgs_def executeCall_def c firstRequest_def)
  from a b d show ?thesis by (simp add: genericMessage_def)
qed

lemma answers_unknown_in_results:
  assumes "list_all2 answers fcs frs" and "callPart \<in> set fcs"
    and "p_functionCall callPart = Some call" and "\<not> registered call"
  shows "functionResponsePart call unknownFunction \<in> set frs"
proof -
  from assms(2) obtain i where i: "i < length fcs" and at: "fcs ! i = callPart"
    by (auto simp: in_set_conv_nth)
  with assms(1) have "answers callPart (frs ! i)" and "i < length frs"
    by (auto simp: list_all2_conv_all_nth)
  with assms(3,4) have "frs ! i = functionResponsePart call unknownFunction"
    by (simp add: answers_def registered_def)
  with \<open>i < length frs\<close> show ?thesis by (metis nth_mem)
qed

text \<open>
  An unknown tool name gives the error result, without an exception and without any
  request. When every request of the same reply that names a declared tool carries
  an argument object, the error result is among the results the second request
  carries as its last turn.
\<close>

lemma unknown_tool_error_result:
  "\<not> registered call
   \<Longrightarrow> executeCall e s call
       = (Inr \<lparr>p_text = None, p_inlineData = None, p_functionCall = None,
               p_functionResponse =
                 Some \<lparr>fr_name = fc_name call,
                       fr_response = JObj [(''result'', JObj [(''error'', JStr ''Unknown function'')])],
                       fr_id = fc_id call\<rparr>\<rparr>, s)"
  by (simp add: executeCall_unknown functionResponsePart_def unknownFunction_def)

lemma unknown_tool_returned:
  assumes k: "geminiService_API_KEY e \<noteq> []"
    and f: "generateContent e (calls s)
              (firstRequest e (pastContent history) (currentParts m atts)) = Inr response1"
    and p: "responseParts response1 = Some modelParts"
    and c: "callPart \<in> set modelParts" "p_functionCall callPart = Some call" "\<not> registered call"
    and r: "\<forall>p \<in> set modelParts. \<forall>c. p_functionCall p = Some c \<longrightarrow> resolvable c"
  shows "\<exists>frs.
      functionResponsePart call unknownFunction \<in> set frs
      \<and> calls (snd (snd (generateFinancialAdvice e h s history m atts)))
          = calls s @ [firstRequest e (pastContent history) (currentParts m atts),
                secondRequest e (pastContent history) (currentParts m atts) modelParts frs]
      \<and> rq_contents (secondRequest e (pastContent history) (currentParts m atts) modelParts frs)
          = rq_contents (firstRequest e (pastContent history) (currentParts m atts))
              @ [\<lparr>chi_role = RoleModel, chi_parts = modelParts\<rparr>,
                 \<lparr>chi_role = RoleUser, chi_parts = frs\<rparr>]
      \<and> fst (generateFinancialAdvice e h s history m atts)
          = finish e (generateContent e
              (calls s @ [firstRequest e (pastContent history) (currentParts m atts)])
              (secondRequest e (pastContent history) (currentParts m atts) modelParts frs))"
proof -
  let ?fcs = "filter (\<lambda>p. p_functionCall p \<noteq> None) modelParts"
  from c have mem: "callPart \<in> set ?fcs" by simp
  then have n: "?fcs \<noteq> []" by (metis empty_iff list.set(1))
  from turn_with_tools [OF k f p n r, of h]
  obtain frs s2 where ans: "list_all2 answers ?fcs frs"
    and io: "snd (snd (generateFinancialAdvice e h s history m atts))
          = s2\<lparr>calls := calls s @ [firstRequest e (pastContent history) (currentParts m atts),
                secondRequest e (pastContent history) (currentParts m atts) modelParts frs]\<rparr>"
    and res: "fst (generateFinancialAdvice e h s history m atts)
          = finish e (generateContent e
              (calls s @ [firstRequest e (pastContent history) (currentParts m atts)])
              (secondRequest e (pastContent history) (currentParts m atts) modelParts frs))"
    by blast
  have "functionResponsePart call unknownFunction \<in> set frs"
    using ans mem c(2,3) by (rule answers_unknown_in_results)
  moreover from io have "calls (snd (snd (generateFinancialAdvice e h s history m atts)))
      = calls s @ [firstRequest e (pastContent history) (currentParts m atts),
          secondRequest e (pastContent history) (currentParts m atts) modelParts frs]"
    by simp
  ultimately show ?thesis using res secondRequest_contents by blast
qed

text \<open>
  C3. The result of an unknown tool can be lost. The first reply requests the
  unknown tool get_weather and then get_macro_news without an argument object.
  Resolving get_weather gives the function response with the result
  \<^verbatim>\<open>{ error: "Unknown function" }\<close>; reading \<^verbatim>\<open>args.query\<close> of the next request
  throws a \<^verbatim>\<open>TypeError\<close> that ends the \<^verbatim>\<open>try\<close> block. The error result is
  never sent: the backend is called once, and the turn ends with the generic
  fallback message instead of an answer of the backend.
\<close>

theorem unknown_tool_result_lost:
  "executeCall
      (exampleEnv exampleConfig
         [replyOfParts None [functionCallPart unknownCall, functionCallPart macroCallNoArgs],
          replyOfParts (Some ''Jawaban'') []])
      io0 unknownCall
     = (Inr \<lparr>p_text = None, p_inlineData = None, p_functionCall = None,
             p_functionResponse =
               Some \<lparr>fr_name = Some ''get_weather'',
                     fr_response = JObj [(''result'', JObj [(''error'', JStr ''Unknown function'')])],
                     fr_id = Some ''call-0''\<rparr>\<rparr>, io0)
   \<and> executeCalls
        (exampleEnv exampleConfig
           [replyOfParts None [functionCallPart unknownCall, functionCallPart macroCallNoArgs],
            replyOfParts (Some ''Jawaban'') []])
        io0 [functionCallPart unknownCall, functionCallPart macroCallNoArgs] []
      = (Inl (typeError ''query''), io0)
   \<and> generateFinancialAdvice
        (exampleEnv exampleConfig
           [replyOfParts None [functionCallPart unknownCall, functionCallPart macroCallNoArgs],
            replyOfParts (Some ''Jawaban'') []])
        [] io0 [] ''Cuaca Jakarta'' []
      = (Inr \<lparr>adv_text = ''Maaf, terjadi kesalahan saat menghubungkan ke layanan AI.'',
              adv_sources = []\<rparr>, [],
         \<lparr>calls = [firstRequest
                     (exampleEnv exampleConfig
                        [replyOfParts None
                           [functionCallPart unknownCall, functionCallPart macroCallNoArgs],
                         replyOfParts (Some ''Jawaban'') []])
                     [] (currentParts ''Cuaca Jakarta'' [])],
          fetched = []\<rparr>)
   \<and> length (calls (snd (snd (generateFinancialAdvice
        (exampleEnv exampleConfig
           [replyOfParts None [functionCallPart unknownCall, functionCallPart macroCallNoArgs],
            replyOfParts (Some ''Jawaban'') []])
        [] io0 [] ''Cuaca Jakarta'' [])))) = 1"
proof -
  let ?e = "exampleEnv exampleConfig
         [replyOfParts None [functionCallPart unknownCall, functionCallPart macroCallNoArgs],
          replyOfParts (Some ''Jawaban'') []]"
  have a: "executeCall ?e io0 unknownCall
     = (Inr \<lparr>p_text = None, p_inlineData = None, p_functionCall = None,
             p_functionResponse =
               Some \<lparr>fr_name = Some ''get_weather'',
                     fr_response = JObj [(''result'', JObj [(''error'', JStr ''Unknown function'')])],
                     fr_id = Some ''call-0''\<rparr>\<rparr>, io0)"
    by (simp add: executeCall_def unknownCall_def functionResponsePart_def unknownFunction_def)
  have b: "executeCalls ?e io0 [functionCallPart unknownCall, functionCallPart macroCallNoArgs] []
      = (Inl (typeError ''query''), io0)"
    by (simp add: functionCallPart_def unknownCall_def macroCallNoArgs_def executeCall_def)
  have c: "catchBlock (typeError ''query'') = Inr \<lparr>adv_text = genericMessage, adv_sources = []\<rparr>"
    by (simp add: typeErrorOf_def newError_def catchBlock_def errorMessage_def
        messageIncludes_def bindE_def)
  have d: "generateFinancialAdvice ?e [] io0 [] ''Cuaca Jakarta'' []
      = (Inr \<lparr>adv_text = genericMessage, adv_sources = []\<rparr>, [],
         \<lparr>calls = [firstRequest ?e [] (currentParts ''Cuaca Jakarta'' [])], fetched = []\<rparr>)"
    by (simp add: generateFinancialAdvice_def tryBlock_def exampleEnv_def exampleConfig_def
      io0_def doGenerateContent_def geminiService_API_KEY_def str_or_def
      pastContent_def toolRound_def replyOfParts_def responseParts_def functionCallPart_def
      unknownCall_def macroCallNoArgs_def executeCall_def c firstRequest_def Let_def)
  from a b d show ?thesis by (simp add: genericMessage_def)
qed

text \<open>
  C8. Every request respond sends to the backend begins with the assembled context:
  the messages of the history whose isPlaceholder flag is not set, in order, each as
  one turn whose only part is the text of the message, with role model for an
  assistant message and role user for any other, followed by the new user turn whose
  parts are the text of the new message and then, per attachment and in attachment
  order, one inlineData part holding the attachment's mimeType and data. With an API
  key configured the first request is sent and its contents are exactly this context.
\<close>

theorem assemble_context:
  "rq_contents (firstRequest e (pastContent history) (currentParts m atts))
     = map (\<lambda>msg. \<lparr>chi_role = (if msg_role msg = Assistant then RoleModel else RoleUser),
                   chi_parts = [\<lparr>p_text = Some (msg_content msg), p_inlineData = None,
                                 p_functionCall = None, p_functionResponse = None\<rparr>]\<rparr>)
         (filter (\<lambda>msg. msg_isPlaceholder msg \<noteq> Some True) history)
       @ [\<lparr>chi_role = RoleUser,
           chi_parts =
             \<lparr>p_text = Some m, p_inlineData = None,
              p_functionCall = None, p_functionResponse = None\<rparr>
             # map (\<lambda>att. \<lparr>p_text = None,
                           p_inlineData = Some \<lparr>id_mimeType = att_mimeType att,
                                                 id_data = att_data att\<rparr>,
                           p_functionCall = None, p_functionResponse = None\<rparr>) atts\<rparr>]
   \<and> (geminiService_API_KEY e \<noteq> []
      \<longrightarrow> (\<exists>rest. calls (snd (snd (generateFinancialAdvice e h s history m atts)))
            = calls s @ firstRequest e (pastContent history) (currentParts m atts) # rest))
   \<and> (\<forall>rq \<in> set (drop (length (calls s))
                    (calls (snd (snd (generateFinancialAdvice e h s history m atts))))).
        take (Suc (length (filter (\<lambda>msg. msg_isPlaceholder msg \<noteq> Some True) history)))
          (rq_contents rq)
        = map (\<lambda>msg. \<lparr>chi_role = (if msg_role msg = Assistant then RoleModel else RoleUser),
                      chi_parts = [\<lparr>p_text = Some (msg_content msg), p_inlineData = None,
                                    p_functionCall = None, p_functionResponse = None\<rparr>]\<rparr>)
            (filter (\<lambda>msg. msg_isPlaceholder msg \<noteq> Some True) history)
          @ [\<lparr>chi_role = RoleUser,
              chi_parts =
                \<lparr>p_text = Some m, p_inlineData = None,
                 p_functionCall = None, p_functionResponse = None\<rparr>
                # map (\<lambda>att. \<lparr>p_text = None,
                              p_inlineData = Some \<lparr>id_mimeType = att_mimeType att,
                                                    id_data = att_data att\<rparr>,
                              p_functionCall = None, p_functionResponse = None\<rparr>) atts\<rparr>])"
proof -
  let ?past = "pastContent history" and ?parts = "currentParts m atts"
  let ?n = "Suc (length (filter (\<lambda>msg. msg_isPlaceholder msg \<noteq> Some True) history))"
  let ?ctx = "map (\<lambda>msg. \<lparr>chi_role = (if msg_role msg = Assistant then RoleModel else RoleUser),
                   chi_parts = [\<lparr>p_text = Some (msg_content msg), p_inlineData = None,
                                 p_functionCall = None, p_functionResponse = None\<rparr>]\<rparr>)
         (filter (\<lambda>msg. msg_isPlaceholder msg \<noteq> Some True) history)
       @ [\<lparr>chi_role = RoleUser,
           chi_parts =
             \<lparr>p_text = Some m, p_inlineData = None,
              p_functionCall = None, p_functionResponse = None\<rparr>
             # map (\<lambda>att. \<lparr>p_text = None,
                           p_inlineData = Some \<lparr>id_mimeType = att_mimeType att,
                                                 id_data = att_data att\<rparr>,
                           p_functionCall = None, p_functionResponse = None\<rparr>) atts\<rparr>]"
  have ip: "inlineDataPart = (\<lambda>att. \<lparr>p_text = None,
                           p_inlineData = Some \<lparr>id_mimeType = att_mimeType att,
                                                 id_data = att_data att\<rparr>,
                           p_functionCall = None, p_functionResponse = None\<rparr>)"
    by (rule ext) (simp add: inlineDataPart_def)
  have c: "rq_contents (firstRequest e ?past ?parts) = ?ctx"
    by (simp add: firstRequest_def pastContent_def currentParts_def textPart_def ip)
  have sent: "geminiService_API_KEY e \<noteq> []
      \<longrightarrow> (\<exists>rest. calls (snd (snd (generateFinancialAdvice e h s history m atts)))
            = calls s @ firstRequest e ?past ?parts # rest)"
    using firstRequest_sent by blast
  obtain r s' where tb: "tryBlock e h s history m atts = (r, s')"
    by (cases "tryBlock e h s history m atts")
  then have out: "snd (snd (generateFinancialAdvice e h s history m atts)) = s'"
    by (simp add: generateFinancialAdvice_def split: sum.splits prod.splits)
  have len: "length ?past = length (filter (\<lambda>msg. msg_isPlaceholder msg \<noteq> Some True) history)"
    by (simp add: pastContent_def)
  have one: "take ?n (rq_contents (firstRequest e ?past ?parts))
      = rq_contents (firstRequest e ?past ?parts)"
    by (simp add: firstRequest_def len)
  have two: "take ?n (rq_contents (secondRequest e ?past ?parts mp frs))
      = rq_contents (firstRequest e ?past ?parts)" for mp frs
    by (simp add: firstRequest_def secondRequest_def len)
  from tryBlock_shape [OF tb] one two
  have "\<forall>rq \<in> set (drop (length (calls s)) (calls s')).
      take ?n (rq_contents rq) = rq_contents (firstRequest e ?past ?parts)"
    by auto
  with out c have all: "\<forall>rq \<in> set (drop (length (calls s))
                    (calls (snd (snd (generateFinancialAdvice e h s history m atts))))).
        take ?n (rq_contents rq) = ?ctx"
    by simp
  from c sent all show ?thesis by blast
qed

text \<open>
  The witness: a history with an assistant message, a placeholder and a user message,
  and one attachment. One request is sent; its contents are the two messages that
  are no placeholder and the new turn with its text and the attachment's data.
\<close>

theorem assemble_context_witness:
  "map rq_contents (calls (snd (snd (generateFinancialAdvice
        (exampleEnv exampleConfig [replyOfParts (Some ''Baik'') []]) [] io0
        [exampleMessage ''Halo'' Assistant None, exampleMessage ''...'' Assistant (Some True),
         exampleMessage ''Apa kabar IHSG'' User (Some False)]
        ''Analisis laporan ini''
        [\<lparr>att_name = ''laporan.pdf'', att_mimeType = ''application/pdf'', att_data = ''JVBERi0=''\<rparr>]))))
     = [[\<lparr>chi_role = RoleModel,
          chi_parts = [\<lparr>p_text = Some ''Halo'', p_inlineData = None,
                        p_functionCall = None, p_functionResponse = None\<rparr>]\<rparr>,
         \<lparr>chi_role = RoleUser,
          chi_parts = [\<lparr>p_text = Some ''Apa kabar IHSG'', p_inlineData = None,
                        p_functionCall = None, p_functionResponse = None\<rparr>]\<rparr>,
         \<lparr>chi_role = RoleUser,
          chi_parts = [\<lparr>p_text = Some ''Analisis laporan ini'', p_inlineData = None,
                        p_functionCall = None, p_functionResponse = None\<rparr>,
                       \<lparr>p_text = None,
                        p_inlineData = Some \<lparr>id_mimeType = ''application/pdf'',
                                              id_data = ''JVBERi0=''\<rparr>,
                        p_functionCall = None, p_functionResponse = None\<rparr>]\<rparr>]]"
proof -
  let ?e = "exampleEnv exampleConfig [replyOfParts (Some ''Baik'') []]"
  let ?history = "[exampleMessage ''Halo'' Assistant None, exampleMessage ''...'' Assistant (Some True),
        exampleMessage ''Apa kabar IHSG'' User (Some False)]"
  let ?atts = "[\<lparr>att_name = ''laporan.pdf'', att_mimeType = ''application/pdf'', att_data = ''JVBERi0=''\<rparr>]"
  let ?out = "generateFinancialAdvice ?e [] io0 ?history ''Analisis laporan ini'' ?atts"
  have key: "geminiService_API_KEY ?e \<noteq> []"
    by (simp add: geminiService_API_KEY_def exampleEnv_def exampleConfig_def str_or_def)
  have one: "length (calls (snd (snd ?out))) = 1"
    by (simp add: generateFinancialAdvice_def tryBlock_def exampleEnv_def exampleConfig_def
      io0_def doGenerateContent_def geminiService_API_KEY_def str_or_def
      toolRound_def replyOfParts_def responseParts_def extractSources_def groundingChunks_def
      Let_def)
  from assemble_context [of ?e ?history "''Analisis laporan ini''" ?atts "[]" io0] key
  obtain rest where r: "calls (snd (snd ?out))
      = calls io0 @ firstRequest ?e (pastContent ?history)
          (currentParts ''Analisis laporan ini'' ?atts) # rest"
    and c: "rq_contents (firstRequest ?e (pastContent ?history)
          (currentParts ''Analisis laporan ini'' ?atts))
     = map (\<lambda>msg. \<lparr>chi_role = (if msg_role msg = Assistant then RoleModel else RoleUser),
                   chi_parts = [\<lparr>p_text = Some (msg_content msg), p_inlineData = None,
                                 p_functionCall = None, p_functionResponse = None\<rparr>]\<rparr>)
         (filter (\<lambda>msg. msg_isPlaceholder msg \<noteq> Some True) ?history)
       @ [\<lparr>chi_role = RoleUser,
           chi_parts =
             \<lparr>p_text = Some ''Analisis laporan ini'', p_inlineData = None,
              p_functionCall = None, p_functionResponse = None\<rparr>
             # map (\<lambda>att. \<lparr>p_text = None,
                           p_inlineData = Some \<lparr>id_mimeType = att_mimeType att,
                                                 id_data = att_data att\<rparr>,
                           p_functionCall = None, p_functionResponse = None\<rparr>) ?atts\<rparr>]"
    by blast
  from r one have "rest = []" by (simp add: io0_def)
  with r have "map rq_contents (calls (snd (snd ?out)))
      = [rq_contents (firstRequest ?e (pastContent ?history)
          (currentParts ''Analisis laporan ini'' ?atts))]"
    by (simp add: io0_def)
  with c show ?thesis by (simp add: exampleMessage_def)
qed

lemma sourcesOfChunks_throws:
  assumes "\<not> list_all (\<lambda>w. titled w \<or> \<not> isl (hostname e (web_uri w))) (webRefs chunks)"
  shows "isl (sourcesOfChunks e chunks)"
  using assms
proof (induction chunks)
  case Nil
  then show ?case by simp
next
  case (Cons chunk rest)
  show ?case
  proof (cases "gc_web chunk")
    case None
    with Cons show ?thesis by simp
  next
    case (Some web)
    show ?thesis
    proof (cases "titled web \<or> \<not> isl (hostname e (web_uri web))")
      case True
      with Cons.prems Some
      have "\<not> list_all (\<lambda>w. titled w \<or> \<not> isl (hostname e (web_uri w))) (webRefs rest)"
        by simp
      then have "isl (sourcesOfChunks e rest)" by (rule Cons.IH)
      with Some show ?thesis by (auto split: sum.splits)
    next
      case False
      then have "isl (sourceTitle e web)"
        by (auto simp: sourceTitle_def titled_def split: option.splits)
      with Some show ?thesis by (auto split: sum.splits)
    qed
  qed
qed

text \<open>
  C9, as stated, fails: when a web reference without a title has a URI that is no
  URL, \<^verbatim>\<open>new URL(uri)\<close> throws; no chunk is mapped to a citation, not even one that
  has a title, and the turn ends with the generic fallback message and no citations.
\<close>

theorem extract_citations_counterexample:
  "extractSources (exampleEnv exampleConfig [])
      (groundedReply ''IHSG naik''
         [\<lparr>gc_web = Some \<lparr>web_uri = ''https://a.example/ihsg'', web_title = Some ''Berita A''\<rparr>\<rparr>,
          \<lparr>gc_web = Some \<lparr>web_uri = ''bukan url'', web_title = None\<rparr>\<rparr>])
     = Inl (newError ''Invalid URL'')
   \<and> fst (generateFinancialAdvice
        (exampleEnv exampleConfig
           [Inr (groundedReply ''IHSG naik''
              [\<lparr>gc_web = Some \<lparr>web_uri = ''https://a.example/ihsg'', web_title = Some ''Berita A''\<rparr>\<rparr>,
               \<lparr>gc_web = Some \<lparr>web_uri = ''bukan url'', web_title = None\<rparr>\<rparr>])])
        [] io0 [] ''Bagaimana IHSG'' [])
      = Inr \<lparr>adv_text = genericMessage, adv_sources = []\<rparr>"
  by (simp add: generateFinancialAdvice_def tryBlock_def exampleEnv_def exampleConfig_def
      io0_def doGenerateContent_def geminiService_API_KEY_def str_or_def
      toolRound_def responseParts_def groundedReply_def textPart_def
      extractSources_def groundingChunks_def sourceTitle_def exampleHostname_def
      newError_def catchBlock_def errorMessage_def messageIncludes_def bindE_def Let_def)

text \<open>
  C9, amended. When the backend returns no grounding chunks the citations are empty.
  When the URI of every web reference that has no title (a missing or empty one) is
  a URL, the chunks that carry a web reference are mapped, in order, to citations
  \<open>{uri, title}\<close> whose title is the backend's title, or the host name of the URI
  when there is none. When some reference without a title has a URI that is no URL,
  the extraction throws and the turn ends as the \<^verbatim>\<open>catch\<close> block ends on that
  exception: for an \<^verbatim>\<open>Error\<close> with a string message, as \<^verbatim>\<open>new URL\<close> throws,
  with the fallback message selected from it and no citations.
\<close>

theorem extract_citations:
  "(groundingChunks response = None \<longrightarrow> extractSources e response = Inr [])
   \<and> (groundingChunks response = Some chunks
        \<and> list_all (\<lambda>w. titled w \<or> \<not> isl (hostname e (web_uri w))) (webRefs chunks)
      \<longrightarrow> extractSources e response
          = Inr (map (\<lambda>w. \<lparr>gs_uri = web_uri w,
                            gs_title = (if titled w then the (web_title w)
                                        else projr (hostname e (web_uri w)))\<rparr>)
                  (webRefs chunks))
        \<and> finish e (Inr response)
          = Inr \<lparr>adv_text = finalText response,
             adv_sources = map (\<lambda>w. \<lparr>gs_uri = web_uri w,
                            gs_title = (if titled w then the (web_title w)
                                        else projr (hostname e (web_uri w)))\<rparr>)
                  (webRefs chunks)\<rparr>)
   \<and> (groundingChunks response = Some chunks
        \<and> \<not> list_all (\<lambda>w. titled w \<or> \<not> isl (hostname e (web_uri w))) (webRefs chunks)
      \<longrightarrow> (\<exists>err. extractSources e response = Inl err
            \<and> finish e (Inr response) = catchBlock err
            \<and> (\<forall>msg. js_prop err ''message'' = Inr (JStr msg)
                 \<longrightarrow> finish e (Inr response)
                     = Inr \<lparr>adv_text = selectedMessage msg, adv_sources = []\<rparr>)))"
proof (intro conjI impI)
  assume "groundingChunks response = None"
  then show "extractSources e response = Inr []" by (simp add: extractSources_def)
next
  assume a: "groundingChunks response = Some chunks
        \<and> list_all (\<lambda>w. titled w \<or> \<not> isl (hostname e (web_uri w))) (webRefs chunks)"
  then have "list_all (\<lambda>w. titled w \<or> isl (hostname e (web_uri w)) = False) (webRefs chunks)"
    by simp
  from sourcesOfChunks_webRefs [OF this] a
  show x: "extractSources e response
          = Inr (map (\<lambda>w. \<lparr>gs_uri = web_uri w,
                            gs_title = (if titled w then the (web_title w)
                                        else projr (hostname e (web_uri w)))\<rparr>)
                  (webRefs chunks))"
    by (simp add: extractSources_def)
  then show "finish e (Inr response)
          = Inr \<lparr>adv_text = finalText response,
             adv_sources = map (\<lambda>w. \<lparr>gs_uri = web_uri w,
                            gs_title = (if titled w then the (web_title w)
                                        else projr (hostname e (web_uri w)))\<rparr>)
                  (webRefs chunks)\<rparr>"
    by (simp add: finish_def)
next
  assume a: "groundingChunks response = Some chunks
        \<and> \<not> list_all (\<lambda>w. titled w \<or> \<not> isl (hostname e (web_uri w))) (webRefs chunks)"
  then have "isl (sourcesOfChunks e chunks)" by (intro sourcesOfChunks_throws) simp
  with a obtain err where "extractSources e response = Inl err"
    by (auto simp: extractSources_def isl_def)
  then show "\<exists>err. extractSources e response = Inl err
            \<and> finish e (Inr response) = catchBlock err
            \<and> (\<forall>msg. js_prop err ''message'' = Inr (JStr msg)
                 \<longrightarrow> finish e (Inr response)
                     = Inr \<lparr>adv_text = selectedMessage msg, adv_sources = []\<rparr>)"
    by (simp add: finish_def catchBlock_def errorMessage_def messageIncludes_def bindE_def
        selectedMessage_def)
qed

text \<open>
  The witness: one chunk with a title, one chunk without a web reference, one chunk
  whose title is missing and whose URI is a URL.
\<close>

theorem extract_citations_witness:
  "extractSources (exampleEnv exampleConfig [])
      (groundedReply ''IHSG naik''
         [\<lparr>gc_web = Some \<lparr>web_uri = ''https://a.example/ihsg'', web_title = Some ''Berita A''\<rparr>\<rparr>,
          \<lparr>gc_web = None\<rparr>,
          \<lparr>gc_web = Some \<lparr>web_uri = ''https://b.example/pasar'', web_title = None\<rparr>\<rparr>])
     = Inr [\<lparr>gs_uri = ''https://a.example/ihsg'', gs_title = ''Berita A''\<rparr>,
            \<lparr>gs_uri = ''https://b.example/pasar'', gs_title = ''b.example''\<rparr>]"
proof -
  let ?chunks = "[\<lparr>gc_web = Some \<lparr>web_uri = ''https://a.example/ihsg'', web_title = Some ''Berita A''\<rparr>\<rparr>,
          \<lparr>gc_web = None\<rparr>,
          \<lparr>gc_web = Some \<lparr>web_uri = ''https://b.example/pasar'', web_title = None\<rparr>\<rparr>]"
  let ?e = "exampleEnv exampleConfig []"
  have g: "groundingChunks (groundedReply ''IHSG naik'' ?chunks) = Some ?chunks"
    by (simp add: groundingChunks_def groundedReply_def)
  have h: "list_all (\<lambda>w. titled w \<or> \<not> isl (hostname ?e (web_uri w))) (webRefs ?chunks)"
    by (simp add: titled_def exampleEnv_def exampleHostname_def)
  have v: "map (\<lambda>w. \<lparr>gs_uri = web_uri w,
                      gs_title = (if titled w then the (web_title w)
                                  else projr (hostname ?e (web_uri w)))\<rparr>)
             (webRefs ?chunks)
      = [\<lparr>gs_uri = ''https://a.example/ihsg'', gs_title = ''Berita A''\<rparr>,
         \<lparr>gs_uri = ''https://b.example/pasar'', gs_title = ''b.example''\<rparr>]"
    by (simp add: titled_def exampleEnv_def exampleHostname_def)
  from extract_citations [of "groundedReply ''IHSG naik'' ?chunks" ?e ?chunks] g h
  have "extractSources ?e (groundedReply ''IHSG naik'' ?chunks)
      = Inr (map (\<lambda>w. \<lparr>gs_uri = web_uri w,
                      gs_title = (if titled w then the (web_title w)
                                  else projr (hostname ?e (web_uri w)))\<rparr>)
             (webRefs ?chunks))"
    by blast
  with v show ?thesis by simp
qed

text \<open>
  C10. fetchStockNews and fmpService.getStockNews return the empty array for every
  input and every configuration, a valid FMP key included, and make no request. The
  resolver of the get_stock_news tool therefore never supplies news to the model: a
  request for get_stock_news either throws (it has no argument object) or is
  answered with the empty array, and no request is made.
\<close>

theorem stock_news_disabled:
  "fetchStockNews e s ticker = ([], s)
   \<and> getStockNews e s symbol limit = (JArr [], s)
   \<and> (fc_name call = Some ''get_stock_news''
      \<longrightarrow> snd (executeCall e s call) = s
        \<and> (case fst (executeCall e s call) of
             Inl err \<Rightarrow> fc_args call = None
           | Inr r \<Rightarrow> r = functionResponsePart call (JArr [])))"
  by (auto simp: fetchStockNews_def getStockNews_def executeCall_def split: option.splits)

text \<open>The witness: an environment whose FMP key passes both modules' key checks.\<close>

theorem stock_news_disabled_witness:
  "checkApiKey (exampleEnv (exampleConfig\<lparr>EXPO_PUBLIC_FMP_API_KEY := Some ''fmp-valid-key-123''\<rparr>) [])
   \<and> IS_FMP_ENABLED (exampleEnv (exampleConfig\<lparr>EXPO_PUBLIC_FMP_API_KEY := Some ''fmp-valid-key-123''\<rparr>) [])
   \<and> executeCall (exampleEnv (exampleConfig\<lparr>EXPO_PUBLIC_FMP_API_KEY := Some ''fmp-valid-key-123''\<rparr>) [])
       io0 stockCall
     = (Inr (functionResponsePart stockCall (JArr [])), io0)"
proof -
  let ?e = "exampleEnv (exampleConfig\<lparr>EXPO_PUBLIC_FMP_API_KEY := Some ''fmp-valid-key-123''\<rparr>) []"
  have k: "checkApiKey ?e" "IS_FMP_ENABLED ?e"
    by (simp_all add: checkApiKey_def FMP_API_KEY_def IS_FMP_ENABLED_def fmpService_API_KEY_def
        exampleEnv_def exampleConfig_def str_or_def)
  have n: "fc_name stockCall = Some ''get_stock_news''" "fc_args stockCall \<noteq> None"
    by (simp_all add: stockCall_def)
  from stock_news_disabled [of ?e io0 None "''BBCA''" 5 stockCall] n(1)
  have s: "snd (executeCall ?e io0 stockCall) = io0"
    and c: "(case fst (executeCall ?e io0 stockCall) of
               Inl err \<Rightarrow> fc_args stockCall = None
             | Inr r \<Rightarrow> r = functionResponsePart stockCall (JArr []))"
    by blast+
  from c n(2) have "fst (executeCall ?e io0 stockCall)
      = Inr (functionResponsePart stockCall (JArr []))"
    by (cases "fst (executeCall ?e io0 stockCall)") simp_all
  with s have "executeCall ?e io0 stockCall = (Inr (functionResponsePart stockCall (JArr [])), io0)"
    by (simp add: prod_eq_iff)
  with k show ?thesis by simp
qed

section \<open>The session stores\<close>

lemma removeUndefined_fields:
  "noUndefinedField (removeUndefined v)"
  "noUndefinedFieldProps (cleanProps kvs)"
  "noUndefinedFieldProps (cleanIndexed i vs)"
  "v \<noteq> JUndefined \<longrightarrow> cleanValue v \<noteq> JUndefined \<and> noUndefinedField (cleanValue v)"
  "noUndefinedFieldList (cleanItems items)"
  by (induction v and kvs and i vs and v and items
      rule: removeUndefined_cleanProps_cleanIndexed_cleanValue_cleanItems.induct)
     (auto split: jsval.splits)

lemma removeUndefined_arraysDefined:
  "arraysDefined v \<longrightarrow> noUndefined (removeUndefined v)"
  "arraysDefinedProps kvs \<longrightarrow> noUndefinedProps (cleanProps kvs)"
  "arraysDefinedList vs \<longrightarrow> noUndefinedProps (cleanIndexed i vs)"
  "v \<noteq> JUndefined \<and> arraysDefined v \<longrightarrow> noUndefined (cleanValue v)"
  "arraysDefinedList items \<longrightarrow> noUndefinedList (cleanItems items)"
  by (induction v and kvs and i vs and v and items
      rule: removeUndefined_cleanProps_cleanIndexed_cleanValue_cleanItems.induct)
     (auto split: jsval.splits)

lemma cleanProps_keys:
  "map fst (cleanProps kvs) = map fst (filter (\<lambda>kv. snd kv \<noteq> JUndefined) kvs)"
  by (induction kvs) auto

lemma removeUndefined_attachmentFields [simp]:
  "removeUndefined (attachmentFields att) = attachmentFields att"
  by (simp add: attachmentFields_def js_or_def)

lemma cleanItems_attachmentFields [simp]:
  "cleanItems (map attachmentFields atts) = map attachmentFields atts"
proof (induction atts)
  case Nil
  then show ?case by simp
next
  case (Cons att atts)
  have "cleanItems (attachmentFields att # map attachmentFields atts)
      = removeUndefined (attachmentFields att) # cleanItems (map attachmentFields atts)"
    by (simp add: attachmentFields_def)
  with Cons show ?case by simp
qed

lemma cleanItems_sourceFields [simp]:
  "cleanItems (map sourceFields srcs) = map sourceFields srcs"
proof (induction srcs)
  case Nil
  then show ?case by simp
next
  case (Cons src srcs)
  have "cleanItems (sourceFields src # map sourceFields srcs)
      = removeUndefined (sourceFields src) # cleanItems (map sourceFields srcs)"
    by (simp add: sourceFields_def)
  moreover have "removeUndefined (sourceFields src) = sourceFields src"
    by (simp add: sourceFields_def js_or_def)
  ultimately show ?case using Cons by simp
qed

lemma cleanMessage_storedMessage: "cleanMessage msg = storedMessage msg"
  by (simp add: cleanMessage_def storedMessage_def comp_def split: option.splits)

lemma noUndefined_attachmentFields: "noUndefined (attachmentFields att)"
  by (simp add: attachmentFields_def js_or_def)

lemma noUndefined_sourceFields: "noUndefined (sourceFields src)"
  by (simp add: sourceFields_def js_or_def)

lemma noUndefinedList_map:
  "(\<And>x. noUndefined (f x)) \<Longrightarrow> noUndefinedList (map f xs)"
  by (induction xs) simp_all

lemma noUndefined_storedMessage: "noUndefined (storedMessage msg)"
  by (simp add: storedMessage_def noUndefinedList_map noUndefined_attachmentFields
      noUndefined_sourceFields)

text \<open>
  C6. removeUndefined leaves no property whose value is undefined, in the object it
  returns or in any object nested in it, inside nested objects and inside the
  elements of arrays, and it keeps every property whose value is defined. Its result
  holds no undefined value anywhere as soon as no array of its argument holds
  undefined as an element. The messages and attachments of the object
  saveChatSession hands to the store (its other fields are a title, a creation time
  and the server-timestamp sentinel) hold no undefined value anywhere.
\<close>

theorem removeUndefined_recursive:
  "noUndefinedField (removeUndefined v)
   \<and> map fst (cleanProps kvs) = map fst (filter (\<lambda>kv. snd kv \<noteq> JUndefined) kvs)
   \<and> (arraysDefined v \<longrightarrow> noUndefined (removeUndefined v))
   \<and> noUndefinedList (wd_messages (writeData e session))
   \<and> noUndefinedList (wd_attachments (writeData e session))"
  by (simp add: removeUndefined_fields(1) cleanProps_keys removeUndefined_arraysDefined(1)
      writeData_def cleanMessage_storedMessage noUndefinedList_map noUndefined_storedMessage
      noUndefined_attachmentFields)

theorem removeUndefined_recursive_witness:
  "removeUndefined
      (JObj [(''a'', JUndefined),
             (''b'', JObj [(''c'', JUndefined), (''d'', JNum 1)]),
             (''e'', JArr [JObj [(''f'', JUndefined), (''g'', JStr ''x'')], JNull])])
     = JObj [(''b'', JObj [(''d'', JNum 1)]),
             (''e'', JArr [JObj [(''g'', JStr ''x'')], JNull])]
   \<and> noUndefined (removeUndefined
      (JObj [(''a'', JUndefined),
             (''b'', JObj [(''c'', JUndefined), (''d'', JNum 1)]),
             (''e'', JArr [JObj [(''f'', JUndefined), (''g'', JStr ''x'')], JNull])]))"
proof -
  let ?v = "JObj [(''a'', JUndefined),
             (''b'', JObj [(''c'', JUndefined), (''d'', JNum 1)]),
             (''e'', JArr [JObj [(''f'', JUndefined), (''g'', JStr ''x'')], JNull])]"
  have a: "arraysDefined ?v" by simp
  have b: "removeUndefined ?v
     = JObj [(''b'', JObj [(''d'', JNum 1)]),
             (''e'', JArr [JObj [(''g'', JStr ''x'')], JNull])]"
    by simp
  from removeUndefined_recursive [of ?v] a have "noUndefined (removeUndefined ?v)"
    by blast
  with b show ?thesis by blast
qed

lemma find_upsert:
  "find (\<lambda>s. cs_id s = cs_id session)
     (case findIndex (\<lambda>s. cs_id s = cs_id session) sessions of
        Some existingIndex \<Rightarrow> sessions[existingIndex := session]
      | None \<Rightarrow> sessions @ [session])
   = Some session"
proof (induction sessions)
  case Nil
  then show ?case by simp
next
  case (Cons x xs)
  then show ?case by (auto split: option.splits)
qed

text \<open>
  C5, as stated, fails for the remote store: the title that comes back is not the
  saved one when the saved title is empty (\<^verbatim>\<open>session.title || 'Chat Baru'\<close>), and
  the messages that come back are not the saved ones: the isPlaceholder flag is not
  stored, so two different messages have the same stored form.
\<close>

theorem remote_roundtrip_counterexample:
  "(case firestoreService_saveChatSession (exampleEnv exampleConfig []) exampleFirestore
           (exampleSession [] [exampleMessage ''Halo'' User (Some True)]) of
      Inl err \<Rightarrow> None
    | Inr fs' \<Rightarrow>
        map_option ss_title
          (firestoreService_getChatSession (exampleEnv exampleConfig []) fs' ''chat_1''))
     = Some ''Chat Baru''
   \<and> cs_title (exampleSession [] [exampleMessage ''Halo'' User (Some True)]) = []
   \<and> cleanMessage (exampleMessage ''Halo'' User (Some True))
       = cleanMessage (exampleMessage ''Halo'' User None)
   \<and> exampleMessage ''Halo'' User (Some True) \<noteq> exampleMessage ''Halo'' User None"
  by (simp add: firestoreService_saveChatSession_def firestoreService_getChatSession_def
      getUserId_def setDoc_def getDoc_def bindE_def exampleFirestore_def exampleSession_def
      writeData_def cleanMessage_storedMessage storedMessage_def exampleMessage_def)

text \<open>
  C5, amended. Local store, when reading and writing the storage key succeed: save
  followed by get of the session's id returns the saved session itself, with its
  messages, its title and the full content of its attachments. Remote store, when a
  user is signed in and the store is available: save followed by get returns the
  session's id; as title the saved title, or "Chat Baru" when the saved title is
  empty; as messages, in order, the objects holding the saved id, content, role and
  timestamp of each message, its attachments and its sources (each source as its
  saved uri and title); the isPlaceholder flag is not stored and a missing list comes
  back empty; every attachment, of a message or of the session, comes back as the
  object holding its saved id, name, type, size, mimeType and uri, and nothing else:
  its content is not stored.
\<close>

theorem session_store_roundtrip:
  "(\<not> as_readFails st \<and> \<not> as_writeFails st
      \<longrightarrow> (\<exists>st'. storageService_saveChatSession st session = Inr st'
            \<and> storageService_getChatSession st' (cs_id session) = Some session))
   \<and> (fs_currentUser fs = Some uid \<and> \<not> fs_unavailable fs
      \<longrightarrow> (\<exists>fs'. firestoreService_saveChatSession e fs session = Inr fs'
            \<and> firestoreService_getChatSession e fs' (cs_id session)
                = Some \<lparr>ss_id = cs_id session,
                        ss_title = (if cs_title session \<noteq> [] then cs_title session
                                    else ''Chat Baru''),
                        ss_messages =
                          map (\<lambda>msg.
                            JObj [(''id'', JStr (msg_id msg)),
                                  (''content'', JStr (msg_content msg)),
                                  (''role'', JStr (case msg_role msg of
                                                     User \<Rightarrow> ''user'' | Assistant \<Rightarrow> ''assistant'')),
                                  (''timestamp'', JNum (of_int (msg_timestamp msg))),
                                  (''attachments'',
                                     JArr (map (\<lambda>att.
                                       JObj [(''id'', JStr (fa_id att)),
                                             (''name'', JStr (fa_name att)),
                                             (''type'', JStr (case fa_type att of
                                                  Pdf \<Rightarrow> ''pdf'' | Excel \<Rightarrow> ''excel''
                                                | Csv \<Rightarrow> ''csv'' | Txt \<Rightarrow> ''txt'')),
                                             (''size'', JNum (of_int (fa_size att))),
                                             (''mimeType'', JStr (fa_mimeType att)),
                                             (''uri'', JStr (fa_uri att))])
                                       (case msg_attachments msg of
                                          None \<Rightarrow> [] | Some atts \<Rightarrow> atts))),
                                  (''sources'',
                                     JArr (map (\<lambda>src.
                                       JObj [(''uri'', JStr (gs_uri src)),
                                             (''title'', JStr (gs_title src))])
                                       (case msg_sources msg of
                                          None \<Rightarrow> [] | Some srcs \<Rightarrow> srcs)))])
                            (cs_messages session),
                        ss_attachments =
                          map (\<lambda>att.
                            JObj [(''id'', JStr (fa_id att)),
                                  (''name'', JStr (fa_name att)),
                                  (''type'', JStr (case fa_type att of
                                       Pdf \<Rightarrow> ''pdf'' | Excel \<Rightarrow> ''excel''
                                     | Csv \<Rightarrow> ''csv'' | Txt \<Rightarrow> ''txt'')),
                                  (''size'', JNum (of_int (fa_size att))),
                                  (''mimeType'', JStr (fa_mimeType att)),
                                  (''uri'', JStr (fa_uri att))])
                            (cs_attachments session),
                        ss_createdAt = (if cs_createdAt session \<noteq> 0 then cs_createdAt session
                                        else now e),
                        ss_updatedAt = fs_serverTime fs\<rparr>))
   \<and> map fst (case attachmentFields att of JObj kvs \<Rightarrow> kvs | _ \<Rightarrow> [])
       = [''id'', ''name'', ''type'', ''size'', ''mimeType'', ''uri'']
   \<and> js_get (attachmentFields att) ''content'' = JUndefined"
proof (intro conjI impI)
  assume "\<not> as_readFails st \<and> \<not> as_writeFails st"
  then show "\<exists>st'. storageService_saveChatSession st session = Inr st'
            \<and> storageService_getChatSession st' (cs_id session) = Some session"
    by (simp add: storageService_saveChatSession_def storageService_getChatSession_def
        storageService_getAllChatSessions_def Let_def find_upsert)
next
  assume "fs_currentUser fs = Some uid \<and> \<not> fs_unavailable fs"
  then have stored: "\<exists>fs'. firestoreService_saveChatSession e fs session = Inr fs'
            \<and> firestoreService_getChatSession e fs' (cs_id session)
                = Some \<lparr>ss_id = cs_id session,
                        ss_title = (if cs_title session \<noteq> [] then cs_title session
                                    else ''Chat Baru''),
                        ss_messages = map storedMessage (cs_messages session),
                        ss_attachments = map attachmentFields (cs_attachments session),
                        ss_createdAt = (if cs_createdAt session \<noteq> 0 then cs_createdAt session
                                        else now e),
                        ss_updatedAt = fs_serverTime fs\<rparr>"
    by (simp add: firestoreService_saveChatSession_def firestoreService_getChatSession_def
        getUserId_def setDoc_def getDoc_def bindE_def writeData_def cleanMessage_storedMessage)
  show "\<exists>fs'. firestoreService_saveChatSession e fs session = Inr fs'
            \<and> firestoreService_getChatSession e fs' (cs_id session)
                = Some \<lparr>ss_id = cs_id session,
                        ss_title = (if cs_title session \<noteq> [] then cs_title session
                                    else ''Chat Baru''),
                        ss_messages =
                          map (\<lambda>msg.
                            JObj [(''id'', JStr (msg_id msg)),
                                  (''content'', JStr (msg_content msg)),
                                  (''role'', JStr (case msg_role msg of
                                                     User \<Rightarrow> ''user'' | Assistant \<Rightarrow> ''assistant'')),
                                  (''timestamp'', JNum (of_int (msg_timestamp msg))),
                                  (''attachments'',
                                     JArr (map (\<lambda>att.
                                       JObj [(''id'', JStr (fa_id att)),
                                             (''name'', JStr (fa_name att)),
                                             (''type'', JStr (case fa_type att of
                                                  Pdf \<Rightarrow> ''pdf'' | Excel \<Rightarrow> ''excel''
                                                | Csv \<Rightarrow> ''csv'' | Txt \<Rightarrow> ''txt'')),
                                             (''size'', JNum (of_int (fa_size att))),
                                             (''mimeType'', JStr (fa_mimeType att)),
                                             (''uri'', JStr (fa_uri att))])
                                       (case msg_attachments msg of
                                          None \<Rightarrow> [] | Some atts \<Rightarrow> atts))),
                                  (''sources'',
                                     JArr (map (\<lambda>src.
                                       JObj [(''uri'', JStr (gs_uri src)),
                                             (''title'', JStr (gs_title src))])
                                       (case msg_sources msg of
                                          None \<Rightarrow> [] | Some srcs \<Rightarrow> srcs)))])
                            (cs_messages session),
                        ss_attachments =
                          map (\<lambda>att.
                            JObj [(''id'', JStr (fa_id att)),
                                  (''name'', JStr (fa_name att)),
                                  (''type'', JStr (case fa_type att of
                                       Pdf \<Rightarrow> ''pdf'' | Excel \<Rightarrow> ''excel''
                                     | Csv \<Rightarrow> ''csv'' | Txt \<Rightarrow> ''txt'')),
                                  (''size'', JNum (of_int (fa_size att))),
                                  (''mimeType'', JStr (fa_mimeType att)),
                                  (''uri'', JStr (fa_uri att))])
                            (cs_attachments session),
                        ss_createdAt = (if cs_createdAt session \<noteq> 0 then cs_createdAt session
                                        else now e),
                        ss_updatedAt = fs_serverTime fs\<rparr>"
  proof -
    have att: "attachmentFields = (\<lambda>att.
        JObj [(''id'', JStr (fa_id att)),
              (''name'', JStr (fa_name att)),
              (''type'', JStr (case fa_type att of
                   Pdf \<Rightarrow> ''pdf'' | Excel \<Rightarrow> ''excel''
                 | Csv \<Rightarrow> ''csv'' | Txt \<Rightarrow> ''txt'')),
              (''size'', JNum (of_int (fa_size att))),
              (''mimeType'', JStr (fa_mimeType att)),
              (''uri'', JStr (fa_uri att))])"
      by (rule ext) (simp add: attachmentFields_def fileTypeString_def js_or_def)
    have src: "sourceFields = (\<lambda>src. JObj [(''uri'', JStr (gs_uri src)),
                                             (''title'', JStr (gs_title src))])"
      by (rule ext) (simp add: sourceFields_def js_or_def)
    have msg: "storedMessage = (\<lambda>msg.
        JObj [(''id'', JStr (msg_id msg)),
              (''content'', JStr (msg_content msg)),
              (''role'', JStr (case msg_role msg of
                                 User \<Rightarrow> ''user'' | Assistant \<Rightarrow> ''assistant'')),
              (''timestamp'', JNum (of_int (msg_timestamp msg))),
              (''attachments'',
                 JArr (map attachmentFields
                   (case msg_attachments msg of None \<Rightarrow> [] | Some atts \<Rightarrow> atts))),
              (''sources'',
                 JArr (map sourceFields
                   (case msg_sources msg of None \<Rightarrow> [] | Some srcs \<Rightarrow> srcs)))])"
      by (rule ext) (simp add: storedMessage_def roleString_def)
    from stored show ?thesis unfolding msg unfolding att src .
  qed
next
  show "map fst (case attachmentFields att of JObj kvs \<Rightarrow> kvs | _ \<Rightarrow> [])
       = [''id'', ''name'', ''type'', ''size'', ''mimeType'', ''uri'']"
    by (simp add: attachmentFields_def)
next
  show "js_get (attachmentFields att) ''content'' = JUndefined"
    by (simp add: attachmentFields_def js_get_def)
qed

text \<open>
  The witness: a session with a title, one message with an attachment and a source,
  and one stored session with the same id already in the local store. The local
  store gives the session back; the remote store gives back the title, the message
  with the metadata of its attachment and its source, and the metadata of the
  session's attachment, whose content \<open>JVBERi0=\<close> is gone.
\<close>

theorem session_store_roundtrip_witness:
  "(\<exists>st'. storageService_saveChatSession
             (exampleStorage (Some [exampleSession ''Lama'' []]))
             (exampleSession ''Analisis BBCA''
                [(exampleMessage ''Halo'' User None)
                   \<lparr>msg_attachments := Some [exampleFile Pdf 2048 ''JVBERi0=''],
                    msg_sources := Some [\<lparr>gs_uri = ''https://a.example/ihsg'',
                                           gs_title = ''Berita A''\<rparr>]\<rparr>]) = Inr st'
      \<and> storageService_getChatSession st' ''chat_1''
          = Some (exampleSession ''Analisis BBCA''
                [(exampleMessage ''Halo'' User None)
                   \<lparr>msg_attachments := Some [exampleFile Pdf 2048 ''JVBERi0=''],
                    msg_sources := Some [\<lparr>gs_uri = ''https://a.example/ihsg'',
                                           gs_title = ''Berita A''\<rparr>]\<rparr>]))
   \<and> (\<exists>fs'. firestoreService_saveChatSession (exampleEnv exampleConfig []) exampleFirestore
             (exampleSession ''Analisis BBCA''
                [(exampleMessage ''Halo'' User None)
                   \<lparr>msg_attachments := Some [exampleFile Pdf 2048 ''JVBERi0=''],
                    msg_sources := Some [\<lparr>gs_uri = ''https://a.example/ihsg'',
                                           gs_title = ''Berita A''\<rparr>]\<rparr>]) = Inr fs'
      \<and> firestoreService_getChatSession (exampleEnv exampleConfig []) fs' ''chat_1''
          = Some \<lparr>ss_id = ''chat_1'',
                  ss_title = ''Analisis BBCA'',
                  ss_messages =
                    [JObj [(''id'', JStr ''1''),
                           (''content'', JStr ''Halo''),
                           (''role'', JStr ''user''),
                           (''timestamp'', JNum 1700000000000),
                           (''attachments'',
                              JArr [JObj [(''id'', JStr ''file_1''),
                                          (''name'', JStr ''laporan''),
                                          (''type'', JStr ''pdf''),
                                          (''size'', JNum 2048),
                                          (''mimeType'', JStr ''application/pdf''),
                                          (''uri'', JStr ''file:///cache/laporan'')]]),
                           (''sources'',
                              JArr [JObj [(''uri'', JStr ''https://a.example/ihsg''),
                                          (''title'', JStr ''Berita A'')]])]],
                  ss_attachments =
                    [JObj [(''id'', JStr ''file_1''),
                           (''name'', JStr ''laporan''),
                           (''type'', JStr ''pdf''),
                           (''size'', JNum 2048),
                           (''mimeType'', JStr ''application/pdf''),
                           (''uri'', JStr ''file:///cache/laporan'')]],
                  ss_createdAt = 1700000000000,
                  ss_updatedAt = 1700000001000\<rparr>)"
proof -
  let ?session = "exampleSession ''Analisis BBCA''
                [(exampleMessage ''Halo'' User None)
                   \<lparr>msg_attachments := Some [exampleFile Pdf 2048 ''JVBERi0=''],
                    msg_sources := Some [\<lparr>gs_uri = ''https://a.example/ihsg'',
                                           gs_title = ''Berita A''\<rparr>]\<rparr>]"
  let ?st = "exampleStorage (Some [exampleSession ''Lama'' []])"
  let ?e = "exampleEnv exampleConfig []"
  have l: "\<not> as_readFails ?st \<and> \<not> as_writeFails ?st"
    by (simp add: exampleStorage_def)
  have r: "fs_currentUser exampleFirestore = Some ''uid-1'' \<and> \<not> fs_unavailable exampleFirestore"
    by (simp add: exampleFirestore_def)
  have i: "cs_id ?session = ''chat_1''" "cs_title ?session = ''Analisis BBCA''"
    "cs_messages ?session = [(exampleMessage ''Halo'' User None)
                   \<lparr>msg_attachments := Some [exampleFile Pdf 2048 ''JVBERi0=''],
                    msg_sources := Some [\<lparr>gs_uri = ''https://a.example/ihsg'',
                                           gs_title = ''Berita A''\<rparr>]\<rparr>]"
    "cs_attachments ?session = [exampleFile Pdf 2048 ''JVBERi0='']"
    "cs_createdAt ?session = 1700000000000"
    by (simp_all add: exampleSession_def)
  have t: "fs_serverTime exampleFirestore = 1700000001000"
    by (simp add: exampleFirestore_def)
  from session_store_roundtrip
    [where st = ?st and fs = exampleFirestore and uid = "''uid-1''" and session = ?session
       and e = ?e] l r
  have loc: "\<exists>st'. storageService_saveChatSession ?st ?session = Inr st'
            \<and> storageService_getChatSession st' (cs_id ?session) = Some ?session"
    and "\<exists>fs'. firestoreService_saveChatSession ?e exampleFirestore ?session = Inr fs'
            \<and> firestoreService_getChatSession ?e fs' (cs_id ?session)
                = Some \<lparr>ss_id = cs_id ?session,
                        ss_title = (if cs_title ?session \<noteq> [] then cs_title ?session
                                    else ''Chat Baru''),
                        ss_messages =
                          map (\<lambda>msg.
                            JObj [(''id'', JStr (msg_id msg)),
                                  (''content'', JStr (msg_content msg)),
                                  (''role'', JStr (case msg_role msg of
                                                     User \<Rightarrow> ''user'' | Assistant \<Rightarrow> ''assistant'')),
                                  (''timestamp'', JNum (of_int (msg_timestamp msg))),
                                  (''attachments'',
                                     JArr (map (\<lambda>att.
                                       JObj [(''id'', JStr (fa_id att)),
                                             (''name'', JStr (fa_name att)),
                                             (''type'', JStr (case fa_type att of
                                                  Pdf \<Rightarrow> ''pdf'' | Excel \<Rightarrow> ''excel''
                                                | Csv \<Rightarrow> ''csv'' | Txt \<Rightarrow> ''txt'')),
                                             (''size'', JNum (of_int (fa_size att))),
                                             (''mimeType'', JStr (fa_mimeType att)),
                                             (''uri'', JStr (fa_uri att))])
                                       (case msg_attachments msg of
                                          None \<Rightarrow> [] | Some atts \<Rightarrow> atts))),
                                  (''sources'',
                                     JArr (map (\<lambda>src.
                                       JObj [(''uri'', JStr (gs_uri src)),
                                             (''title'', JStr (gs_title src))])
                                       (case msg_sources msg of
                                          None \<Rightarrow> [] | Some srcs \<Rightarrow> srcs)))])
                            (cs_messages ?session),
                        ss_attachments =
                          map (\<lambda>att.
                            JObj [(''id'', JStr (fa_id att)),
                                  (''name'', JStr (fa_name att)),
                                  (''type'', JStr (case fa_type att of
                                       Pdf \<Rightarrow> ''pdf'' | Excel \<Rightarrow> ''excel''
                                     | Csv \<Rightarrow> ''csv'' | Txt \<Rightarrow> ''txt'')),
                                  (''size'', JNum (of_int (fa_size att))),
                                  (''mimeType'', JStr (fa_mimeType att)),
                                  (''uri'', JStr (fa_uri att))])
                            (cs_attachments ?session),
                        ss_createdAt = (if cs_createdAt ?session \<noteq> 0 then cs_createdAt ?session
                                        else now ?e),
                        ss_updatedAt = fs_serverTime exampleFirestore\<rparr>"
    by blast+
  then have rem: "\<exists>fs'. firestoreService_saveChatSession ?e exampleFirestore ?session = Inr fs'
      \<and> firestoreService_getChatSession ?e fs' ''chat_1''
          = Some \<lparr>ss_id = ''chat_1'',
                  ss_title = ''Analisis BBCA'',
                  ss_messages =
                    [JObj [(''id'', JStr ''1''),
                           (''content'', JStr ''Halo''),
                           (''role'', JStr ''user''),
                           (''timestamp'', JNum 1700000000000),
                           (''attachments'',
                              JArr [JObj [(''id'', JStr ''file_1''),
                                          (''name'', JStr ''laporan''),
                                          (''type'', JStr ''pdf''),
                                          (''size'', JNum 2048),
                                          (''mimeType'', JStr ''application/pdf''),
                                          (''uri'', JStr ''file:///cache/laporan'')]]),
                           (''sources'',
                              JArr [JObj [(''uri'', JStr ''https://a.example/ihsg''),
                                          (''title'', JStr ''Berita A'')]])]],
                  ss_attachments =
                    [JObj [(''id'', JStr ''file_1''),
                           (''name'', JStr ''laporan''),
                           (''type'', JStr ''pdf''),
                           (''size'', JNum 2048),
                           (''mimeType'', JStr ''application/pdf''),
                           (''uri'', JStr ''file:///cache/laporan'')]],
                  ss_createdAt = 1700000000000,
                  ss_updatedAt = 1700000001000\<rparr>"
    unfolding i t by (simp add: exampleMessage_def exampleFile_def)
  from loc i(1) rem show ?thesis by simp
qed

section \<open>The data gateway: key checks\<close>

text \<open>
  externalDataService: with no FMP key configured the module's key is the placeholder
  "demo", and with the placeholder every FMP function returns its empty result
  without a request. The macro news search does the same on its own key.
\<close>

lemma FMP_API_KEY_absent:
  "extra_FMP_API_KEY (cfg e) \<in> {None, Some []}
   \<Longrightarrow> EXPO_PUBLIC_FMP_API_KEY (cfg e) \<in> {None, Some []}
   \<Longrightarrow> FMP_API_KEY e = ''demo''"
  by (auto simp: FMP_API_KEY_def str_or_def)

lemma NEWS_API_KEY_absent:
  "extra_NEWS_API_KEY (cfg e) \<in> {None, Some []}
   \<Longrightarrow> EXPO_PUBLIC_NEWS_API_KEY (cfg e) \<in> {None, Some []}
   \<Longrightarrow> NEWS_API_KEY e = ''demo''"
  by (auto simp: NEWS_API_KEY_def str_or_def)

lemma externalDataService_short_circuit:
  assumes "FMP_API_KEY e = ''demo''"
  shows "fetchStockQuote e s ticker = (JNull, s)"
    and "fetchCompanyProfile e s ticker = (JNull, s)"
    and "fetchIncomeStatement e s ticker p limit = (JArr [], s)"
    and "fetchKeyMetrics e s ticker = (JNull, s)"
    and "fetchHistoricalPrices e s ticker days = (JArr [], s)"
    and "searchStocks e s query = (JArr [], s)"
    and "fetchMarketGainers e s = (JArr [], s)"
    and "fetchMarketLosers e s = (JArr [], s)"
    and "fetchEconomicIndicator e s indicator = (JArr [], s)"
  using assms
  by (simp_all add: checkApiKey_def fetchStockQuote_def fetchCompanyProfile_def
      fetchIncomeStatement_def fetchKeyMetrics_def fetchHistoricalPrices_def searchStocks_def
      fetchMarketGainers_def fetchMarketLosers_def fetchEconomicIndicator_def)

lemma fetchMacroNews_short_circuit:
  "NEWS_API_KEY e = ''demo'' \<Longrightarrow> fetchMacroNews e s query = ([], s)"
  by (simp add: fetchMacroNews_def fetchMacroNewsFromNewsAPI_def)

text \<open>
  fmpService: a key that is missing, empty or "demo" (any key of at most five
  characters) disables every method, which then returns its empty result without a
  request.
\<close>

lemma IS_FMP_ENABLED_absent:
  "EXPO_PUBLIC_FMP_API_KEY (cfg e) \<in> {None, Some [], Some ''demo''} \<Longrightarrow> \<not> IS_FMP_ENABLED e"
  by (auto simp: IS_FMP_ENABLED_def fmpService_API_KEY_def str_or_def)

lemma fmpService_short_circuit:
  assumes "\<not> IS_FMP_ENABLED e"
  shows "getQuote e s symbol = (JNull, s)"
    and "getMultipleQuotes e s symbols = (JArr [], s)"
    and "getCompanyProfile e s symbol = (JNull, s)"
    and "getIncomeStatement e s symbol p limit = (JArr [], s)"
    and "getBalanceSheet e s symbol p limit = (JArr [], s)"
    and "getCashFlowStatement e s symbol p limit = (JArr [], s)"
    and "getKeyMetrics e s symbol p limit = (JArr [], s)"
    and "getBiggestGainers e s = (JArr [], s)"
    and "getBiggestLosers e s = (JArr [], s)"
    and "searchSymbol e s query limit = (JArr [], s)"
  using assms
  by (simp_all add: getQuote_def getMultipleQuotes_def getCompanyProfile_def
      getIncomeStatement_def getBalanceSheet_def getCashFlowStatement_def getKeyMetrics_def
      getBiggestGainers_def getBiggestLosers_def searchSymbol_def)

text \<open>newsService: a missing or empty key gives the empty list without a request.\<close>

lemma searchFinancialNews_absent:
  "EXPO_PUBLIC_NEWS_API_KEY (cfg e) \<in> {None, Some []}
   \<Longrightarrow> searchFinancialNews e s query limit = ([], s)"
  by (auto simp: searchFinancialNews_def newsService_API_KEY_def str_or_def)

text \<open>With any other key, the placeholder included, the request is made.\<close>

lemma searchFinancialNews_fetches:
  "newsService_API_KEY e \<noteq> []
   \<Longrightarrow> length (fetched (snd (searchFinancialNews e s query limit))) = Suc (length (fetched s))"
  by (auto simp: searchFinancialNews_def doFetch_def split: sum.splits)

text \<open>
  C4 holds for every function of externalDataService and fmpService (the lemmas
  above), but not for the news search of newsService: the module computes
  \<open>IS_NEWS_ENABLED\<close>, false for the placeholder key "YOUR_NEWS_API_KEY_HERE", and
  searchFinancialNews never reads it; it tests only that the key is not empty. With
  the placeholder configured the search is not enabled, and yet one request goes to
  the news provider.
\<close>

theorem news_placeholder_key_fetches:
  "\<not> IS_NEWS_ENABLED
       (exampleEnv (exampleConfig\<lparr>EXPO_PUBLIC_NEWS_API_KEY := Some ''YOUR_NEWS_API_KEY_HERE''\<rparr>) [])
   \<and> length (fetched (snd (searchFinancialNews
       (exampleEnv (exampleConfig\<lparr>EXPO_PUBLIC_NEWS_API_KEY := Some ''YOUR_NEWS_API_KEY_HERE''\<rparr>) [])
       io0 ''BBCA'' 5))) = 1
   \<and> fst (searchFinancialNews
       (exampleEnv (exampleConfig\<lparr>EXPO_PUBLIC_NEWS_API_KEY := Some ''YOUR_NEWS_API_KEY_HERE''\<rparr>) [])
       io0 ''BBCA'' 5) \<noteq> []"
  by (simp add: IS_NEWS_ENABLED_def newsService_API_KEY_def str_or_def exampleEnv_def
      exampleConfig_def searchFinancialNews_def doFetch_def io0_def bindE_def
      exampleArticles_def articlesOfData_def js_get_def)

section \<open>Attachment validation\<close>

text \<open>
  C7, as stated, fails: the size check comes first and the content check second, so
  a pdf file sized exactly at the 10 MB limit does not pass when its content is
  zero-length, and a file with zero-length content that is over its limit is rejected
  as too large, not as empty.
\<close>

theorem validateFile_limit_counterexample:
  "validateFile (exampleFile Pdf 10485760 [])
     = \<lparr>valid = False, error = Some emptyError\<rparr>
   \<and> validateFile (exampleFile Csv 5242881 [])
     = \<lparr>valid = False, error = Some (tooLargeError Csv)\<rparr>
   \<and> tooLargeError Csv \<noteq> emptyError"
  by (simp add: validateFile_def maxSize_def tooLargeError_def emptyError_def exampleFile_def)

text \<open>
  C7, amended: a pdf file whose size equals the pdf limit (10 MB) and whose content is
  not empty passes validation; a file one byte over the limit of its category fails
  with the too-large error, whatever its content; a file with zero-length content
  whose size is within the limit of its category fails with the empty error; and the
  pdf allowance (10 MB) is strictly larger than the allowance of every other category
  (5 MB).
\<close>

theorem validateFile_boundaries:
  "(fa_type f = Pdf \<and> fa_size f = 10 * 1024 * 1024 \<and> fa_content f \<noteq> []
      \<longrightarrow> validateFile f = \<lparr>valid = True, error = None\<rparr>)
   \<and> (fa_size f = maxSize (fa_type f) + 1
      \<longrightarrow> validateFile f = \<lparr>valid = False, error = Some (tooLargeError (fa_type f))\<rparr>)
   \<and> (fa_content f = [] \<and> fa_size f \<le> maxSize (fa_type f)
      \<longrightarrow> validateFile f = \<lparr>valid = False, error = Some emptyError\<rparr>)
   \<and> maxSize Pdf = 10 * 1024 * 1024
   \<and> (t \<noteq> Pdf \<longrightarrow> maxSize t = 5 * 1024 * 1024 \<and> maxSize t < maxSize Pdf)"
  by (simp add: validateFile_def maxSize_def)

theorem validateFile_boundaries_witness:
  "validateFile (exampleFile Pdf 10485760 ''JVBERi0='') = \<lparr>valid = True, error = None\<rparr>
   \<and> validateFile (exampleFile Pdf 10485761 ''JVBERi0='')
       = \<lparr>valid = False, error = Some (tooLargeError Pdf)\<rparr>
   \<and> validateFile (exampleFile Txt 5242881 ''abc'')
       = \<lparr>valid = False, error = Some (tooLargeError Txt)\<rparr>
   \<and> validateFile (exampleFile Csv 0 []) = \<lparr>valid = False, error = Some emptyError\<rparr>
   \<and> maxSize Csv < maxSize Pdf"
proof -
  have a: "fa_type (exampleFile Pdf 10485760 ''JVBERi0='') = Pdf
      \<and> fa_size (exampleFile Pdf 10485760 ''JVBERi0='') = 10 * 1024 * 1024
      \<and> fa_content (exampleFile Pdf 10485760 ''JVBERi0='') \<noteq> []"
    by (simp add: exampleFile_def)
  have b: "fa_size (exampleFile Pdf 10485761 ''JVBERi0='')
      = maxSize (fa_type (exampleFile Pdf 10485761 ''JVBERi0='')) + 1"
    by (simp add: exampleFile_def maxSize_def)
  have c: "fa_size (exampleFile Txt 5242881 ''abc'')
      = maxSize (fa_type (exampleFile Txt 5242881 ''abc'')) + 1"
    by (simp add: exampleFile_def maxSize_def)
  have d: "fa_content (exampleFile Csv 0 []) = []
      \<and> fa_size (exampleFile Csv 0 []) \<le> maxSize (fa_type (exampleFile Csv 0 []))"
    by (simp add: exampleFile_def maxSize_def)
  have ty: "fa_type (exampleFile Pdf 10485761 ''JVBERi0='') = Pdf"
    "fa_type (exampleFile Txt 5242881 ''abc'') = Txt" "Csv \<noteq> Pdf"
    by (simp_all add: exampleFile_def)
  from validateFile_boundaries [of "exampleFile Pdf 10485760 ''JVBERi0=''" Csv] a ty(3)
  have 1: "validateFile (exampleFile Pdf 10485760 ''JVBERi0='') = \<lparr>valid = True, error = None\<rparr>"
    and 5: "maxSize Csv < maxSize Pdf"
    by blast+
  from validateFile_boundaries [of "exampleFile Pdf 10485761 ''JVBERi0=''" Csv] b ty(1)
  have 2: "validateFile (exampleFile Pdf 10485761 ''JVBERi0='')
       = \<lparr>valid = False, error = Some (tooLargeError Pdf)\<rparr>"
    by simp
  from validateFile_boundaries [of "exampleFile Txt 5242881 ''abc''" Csv] c ty(2)
  have 3: "validateFile (exampleFile Txt 5242881 ''abc'')
       = \<lparr>valid = False, error = Some (tooLargeError Txt)\<rparr>"
    by simp
  from validateFile_boundaries [of "exampleFile Csv 0 []" Csv] d
  have 4: "validateFile (exampleFile Csv 0 []) = \<lparr>valid = False, error = Some emptyError\<rparr>"
    by blast
  from 1 2 3 4 5 show ?thesis by simp
qed

end
